theory Spec2Isabelle
  imports Main "HOL-Library.Word"
begin

unbundle bit_operations_syntax

section \<open>Data model\<close>

text \<open>
  A UUID is PostgreSQL's \<^verbatim>\<open>pg_uuid_t\<close>: sixteen raw bytes. C strings are modelled as
  \<open>string\<close> without the terminating NUL; a \<^verbatim>\<open>char *\<close> that may be \<^verbatim>\<open>NULL\<close> is a
  \<open>string option\<close>. \<^verbatim>\<open>ereport(ERROR, ...)\<close> leaves the function, so every generator
  returns \<open>error + pg_uuid_t\<close>.
\<close>

type_synonym byte = "8 word"
type_synonym u32 = "32 word"
type_synonym pg_uuid_t = "byte list"

datatype error =
    External_Routine_Exception int
  | Invalid_Text_Representation string

text \<open>
  \<open>External_Routine_Exception n\<close> is the report
  \<^verbatim>\<open>"FreeBSD uuid library failure: %d", (int) status\<close>;
  \<open>Invalid_Text_Representation s\<close> is the syntax error of \<^verbatim>\<open>uuid_in\<close>.
\<close>

subsection \<open>printf's zero-padded hexadecimal conversion\<close>

definition hex_digit :: "nat \<Rightarrow> char" where
  "hex_digit d = ''0123456789abcdef'' ! d"

function to_hex :: "nat \<Rightarrow> string" where
  "to_hex n = (if n < 16 then [hex_digit n] else to_hex (n div 16) @ [hex_digit (n mod 16)])"
  by pat_completeness auto
termination
  by (relation "measure (\<lambda>n. n)") auto

declare to_hex.simps [simp del]

text \<open>
  \<open>fmt_x w n\<close> is what \<^verbatim>\<open>%0wx\<close> (and \<^verbatim>\<open>%0wlx\<close>) prints for the unsigned value \<open>n\<close>:
  all its digits, padded with zeros on the left up to the minimum width \<open>w\<close>. A value
  with more than \<open>w\<close> digits is printed in full.
\<close>

definition fmt_x :: "nat \<Rightarrow> nat \<Rightarrow> string" where
  "fmt_x w n = replicate (w - length (to_hex n)) (CHR ''0'') @ to_hex n"

subsection \<open>The string-to-UUID parser\<close>

text \<open>
  Modelled from the spec: \<^verbatim>\<open>uuid_in\<close>, the external parser every generator hands its
  string to, is PostgreSQL's and not part of this repository. The model reads sixteen
  pairs of hexadecimal digits, allows a hyphen after every second byte (the canonical
  8-4-4-4-12 form of the spec has its four hyphens at such places), allows enclosing
  braces, and rejects everything else.
\<close>

definition xdigit_val :: "char \<Rightarrow> nat option" where
  "xdigit_val c = (let k = (of_char c :: nat) in
     if 48 \<le> k \<and> k \<le> 57 then Some (k - 48)
     else if 97 \<le> k \<and> k \<le> 102 then Some (k - 87)
     else if 65 \<le> k \<and> k \<le> 70 then Some (k - 55)
     else None)"

function string_to_uuid_loop :: "nat \<Rightarrow> string \<Rightarrow> (byte list \<times> string) option" where
  "string_to_uuid_loop i src =
     (if 16 \<le> i then Some ([], src)
      else case src of
          c1 # c2 # rest \<Rightarrow>
            (case (xdigit_val c1, xdigit_val c2) of
               (Some h, Some l) \<Rightarrow>
                 (case string_to_uuid_loop (Suc i)
                         (if rest \<noteq> [] \<and> hd rest = CHR ''-'' \<and> i mod 2 = 1 \<and> i < 15
                          then tl rest else rest) of
                    Some (bs, src') \<Rightarrow> Some (word_of_nat (16 * h + l) # bs, src')
                  | None \<Rightarrow> None)
             | _ \<Rightarrow> None)
        | _ \<Rightarrow> None)"
  by pat_completeness auto
termination
  by (relation "measure (\<lambda>(i, src). 16 - i)") auto

declare string_to_uuid_loop.simps [simp del]

definition uuid_in :: "string \<Rightarrow> error + pg_uuid_t" where
  "uuid_in s =
     (let braces = (s \<noteq> [] \<and> hd s = CHR ''{'');
          src = (if braces then tl s else s)
      in case string_to_uuid_loop 0 src of
           None \<Rightarrow> Inl (Invalid_Text_Representation s)
         | Some (bs, src') \<Rightarrow>
             if (if braces then src' = ''}'' else src' = [])
             then Inr bs else Inl (Invalid_Text_Representation s))"

subsection \<open>libmd: the MD5 and SHA-1 primitives\<close>

text \<open>
  Modelled from the spec: the MD5 and SHA-1 of section 4.4 are the primitives of the
  host's libmd (\<^verbatim>\<open><md5.h>\<close>, \<^verbatim>\<open><sha.h>\<close>), which is not part of this repository.
  The digests are defined as RFC 1321 and FIPS 180-1 define them, on whole messages;
  the streaming context of the C interface is the sequence of bytes absorbed so far.
\<close>

definition rotl32 :: "nat \<Rightarrow> u32 \<Rightarrow> u32" where
  "rotl32 n x = push_bit n x OR drop_bit (32 - n) x"

definition be32 :: "byte \<Rightarrow> byte \<Rightarrow> byte \<Rightarrow> byte \<Rightarrow> u32" where
  "be32 a b c d = push_bit 24 (ucast a) OR push_bit 16 (ucast b) OR push_bit 8 (ucast c) OR ucast d"

fun be_words :: "byte list \<Rightarrow> u32 list" where
  "be_words (a # b # c # d # r) = be32 a b c d # be_words r"
| "be_words _ = []"

fun le_words :: "byte list \<Rightarrow> u32 list" where
  "le_words (a # b # c # d # r) = be32 d c b a # le_words r"
| "le_words _ = []"

definition be_bytes :: "u32 \<Rightarrow> byte list" where
  "be_bytes w = [ucast (drop_bit 24 w), ucast (drop_bit 16 w), ucast (drop_bit 8 w), ucast w]"

definition le_bytes :: "u32 \<Rightarrow> byte list" where
  "le_bytes w = [ucast w, ucast (drop_bit 8 w), ucast (drop_bit 16 w), ucast (drop_bit 24 w)]"

definition bit_length_bytes :: "nat \<Rightarrow> byte list" where
  "bit_length_bytes l = (let bits = (word_of_nat (8 * l) :: 64 word) in
     [ucast (drop_bit 56 bits), ucast (drop_bit 48 bits), ucast (drop_bit 40 bits),
      ucast (drop_bit 32 bits), ucast (drop_bit 24 bits), ucast (drop_bit 16 bits),
      ucast (drop_bit 8 bits), ucast bits])"

definition pad_zeros :: "nat \<Rightarrow> nat" where
  "pad_zeros l = (119 - l mod 64) mod 64"

definition sha1_pad :: "byte list \<Rightarrow> byte list" where
  "sha1_pad m = m @ [0x80] @ replicate (pad_zeros (length m)) 0 @ bit_length_bytes (length m)"

definition md5_pad :: "byte list \<Rightarrow> byte list" where
  "md5_pad m = m @ [0x80] @ replicate (pad_zeros (length m)) 0 @ rev (bit_length_bytes (length m))"

definition md5_K :: "u32 list" where
  "md5_K = [
     0xd76aa478, 0xe8c7b756, 0x242070db, 0xc1bdceee, 0xf57c0faf, 0x4787c62a, 0xa8304613, 0xfd469501,
     0x698098d8, 0x8b44f7af, 0xffff5bb1, 0x895cd7be, 0x6b901122, 0xfd987193, 0xa679438e, 0x49b40821,
     0xf61e2562, 0xc040b340, 0x265e5a51, 0xe9b6c7aa, 0xd62f105d, 0x02441453, 0xd8a1e681, 0xe7d3fbc8,
     0x21e1cde6, 0xc33707d6, 0xf4d50d87, 0x455a14ed, 0xa9e3e905, 0xfcefa3f8, 0x676f02d9, 0x8d2a4c8a,
     0xfffa3942, 0x8771f681, 0x6d9d6122, 0xfde5380c, 0xa4beea44, 0x4bdecfa9, 0xf6bb4b60, 0xbebfbc70,
     0x289b7ec6, 0xeaa127fa, 0xd4ef3085, 0x04881d05, 0xd9d4d039, 0xe6db99e5, 0x1fa27cf8, 0xc4ac5665,
     0xf4292244, 0x432aff97, 0xab9423a7, 0xfc93a039, 0x655b59c3, 0x8f0ccc92, 0xffeff47d, 0x85845dd1,
     0x6fa87e4f, 0xfe2ce6e0, 0xa3014314, 0x4e0811a1, 0xf7537e82, 0xbd3af235, 0x2ad7d2bb, 0xeb86d391]"

definition md5_S :: "nat list" where
  "md5_S = [
     7, 12, 17, 22, 7, 12, 17, 22,
     7, 12, 17, 22, 7, 12, 17, 22,
     5, 9, 14, 20, 5, 9, 14, 20,
     5, 9, 14, 20, 5, 9, 14, 20,
     4, 11, 16, 23, 4, 11, 16, 23,
     4, 11, 16, 23, 4, 11, 16, 23,
     6, 10, 15, 21, 6, 10, 15, 21,
     6, 10, 15, 21, 6, 10, 15, 21]"

definition md5_f :: "nat \<Rightarrow> u32 \<Rightarrow> u32 \<Rightarrow> u32 \<Rightarrow> u32" where
  "md5_f i b c d = (if i < 16 then (b AND c) OR (NOT b AND d)
     else if i < 32 then (d AND b) OR (NOT d AND c)
     else if i < 48 then b XOR c XOR d
     else c XOR (b OR NOT d))"

definition md5_g :: "nat \<Rightarrow> nat" where
  "md5_g i = (if i < 16 then i
     else if i < 32 then (5 * i + 1) mod 16
     else if i < 48 then (3 * i + 5) mod 16
     else (7 * i) mod 16)"

type_synonym md5_state = "u32 \<times> u32 \<times> u32 \<times> u32"

fun md5_round :: "u32 list \<Rightarrow> md5_state \<Rightarrow> nat \<Rightarrow> md5_state" where
  "md5_round m (a, b, c, d) i =
     (d, b + rotl32 (md5_S ! i) (md5_f i b c d + a + md5_K ! i + m ! md5_g i), b, c)"

fun md5_block :: "md5_state \<Rightarrow> byte list \<Rightarrow> md5_state" where
  "md5_block (a0, b0, c0, d0) blk =
     (case foldl (md5_round (le_words blk)) (a0, b0, c0, d0) [0..<64] of
        (a, b, c, d) \<Rightarrow> (a0 + a, b0 + b, c0 + c, d0 + d))"

function md5_blocks :: "md5_state \<Rightarrow> byte list \<Rightarrow> md5_state" where
  "md5_blocks h m = (if m = [] then h else md5_blocks (md5_block h (take 64 m)) (drop 64 m))"
  by pat_completeness auto
termination
  by (relation "measure (\<lambda>(h, m). length m)") auto

declare md5_blocks.simps [simp del]

definition MD5 :: "byte list \<Rightarrow> byte list" where
  "MD5 m = (case md5_blocks (0x67452301, 0xEFCDAB89, 0x98BADCFE, 0x10325476) (md5_pad m) of
     (a, b, c, d) \<Rightarrow> le_bytes a @ le_bytes b @ le_bytes c @ le_bytes d)"

definition sha1_sched :: "u32 list \<Rightarrow> u32 list" where
  "sha1_sched w16 = foldl (\<lambda>w t. w @ [rotl32 1 (w ! (t - 3) XOR w ! (t - 8) XOR w ! (t - 14) XOR w ! (t - 16))])
     w16 [16..<80]"

definition sha1_f :: "nat \<Rightarrow> u32 \<Rightarrow> u32 \<Rightarrow> u32 \<Rightarrow> u32" where
  "sha1_f t b c d = (if t < 20 then (b AND c) OR (NOT b AND d)
     else if t < 40 then b XOR c XOR d
     else if t < 60 then (b AND c) OR (b AND d) OR (c AND d)
     else b XOR c XOR d)"

definition sha1_k :: "nat \<Rightarrow> u32" where
  "sha1_k t = (if t < 20 then 0x5A827999 else if t < 40 then 0x6ED9EBA1
     else if t < 60 then 0x8F1BBCDC else 0xCA62C1D6)"

type_synonym sha1_state = "u32 \<times> u32 \<times> u32 \<times> u32 \<times> u32"

fun sha1_round :: "u32 list \<Rightarrow> sha1_state \<Rightarrow> nat \<Rightarrow> sha1_state" where
  "sha1_round w (a, b, c, d, e) t =
     (rotl32 5 a + sha1_f t b c d + e + sha1_k t + w ! t, a, rotl32 30 b, c, d)"

fun sha1_block :: "sha1_state \<Rightarrow> byte list \<Rightarrow> sha1_state" where
  "sha1_block (h0, h1, h2, h3, h4) blk =
     (case foldl (sha1_round (sha1_sched (be_words blk))) (h0, h1, h2, h3, h4) [0..<80] of
        (a, b, c, d, e) \<Rightarrow> (h0 + a, h1 + b, h2 + c, h3 + d, h4 + e))"

function sha1_blocks :: "sha1_state \<Rightarrow> byte list \<Rightarrow> sha1_state" where
  "sha1_blocks h m = (if m = [] then h else sha1_blocks (sha1_block h (take 64 m)) (drop 64 m))"
  by pat_completeness auto
termination
  by (relation "measure (\<lambda>(h, m). length m)") auto

declare sha1_blocks.simps [simp del]

definition SHA1 :: "byte list \<Rightarrow> byte list" where
  "SHA1 m = (case sha1_blocks (0x67452301, 0xEFCDAB89, 0x98BADCFE, 0x10325476, 0xC3D2E1F0) (sha1_pad m) of
     (a, b, c, d, e) \<Rightarrow> be_bytes a @ be_bytes b @ be_bytes c @ be_bytes d @ be_bytes e)"

type_synonym MD5_CTX = "byte list"
type_synonym SHA_CTX = "byte list"

definition MD5Init :: MD5_CTX where
  "MD5Init = []"

definition MD5Update :: "MD5_CTX \<Rightarrow> byte list \<Rightarrow> nat \<Rightarrow> MD5_CTX" where
  "MD5Update ctx data len = ctx @ take len data"

definition MD5Final :: "MD5_CTX \<Rightarrow> byte list" where
  "MD5Final ctx = MD5 ctx"

definition SHA1_Init :: SHA_CTX where
  "SHA1_Init = []"

definition SHA1_Update :: "SHA_CTX \<Rightarrow> byte list \<Rightarrow> nat \<Rightarrow> SHA_CTX" where
  "SHA1_Update ctx data len = ctx @ take len data"

definition SHA1_Final :: "SHA_CTX \<Rightarrow> byte list" where
  "SHA1_Final ctx = SHA1 ctx"

subsection \<open>The host's time/node UUID provider\<close>

text \<open>
  \<^verbatim>\<open>uuid_create\<close> and \<^verbatim>\<open>uuid_to_string\<close> come from \<^verbatim>\<open>/usr/include/uuid.h\<close>. What the
  host decides on a call is a \<open>host\<close> value: the 60-bit timestamp, the clock
  sequence, the 48-bit node identifier, and the status each of the two calls reports.
\<close>

record uuid_t =
  time_low :: u32
  time_mid :: "16 word"
  time_hi_and_version :: "16 word"
  clock_seq_hi_and_reserved :: byte
  clock_seq_low :: byte
  node :: "byte list"

record host =
  host_time :: "64 word"
  host_clock_seq :: "16 word"
  host_node :: "48 word"
  create_status :: u32
  to_string_status :: u32

text \<open>\<^verbatim>\<open>uuid_s_ok\<close> is 0 in the host's header.\<close>

definition uuid_s_ok :: u32 where
  "uuid_s_ok = 0"

text \<open>
  Modelled from the spec: \<^verbatim>\<open>uuid_create\<close> is the host's. Section 4.3 has it pack the
  timestamp, the clock sequence and the node into the version-1 layout (time-low,
  time-mid, time-hi-and-version, clock-seq-hi-and-reserved, clock-seq-low, node), with
  the version nibble set to 0001 and the variant bits to 10.
\<close>

definition uuid_create :: "host \<Rightarrow> uuid_t \<times> u32" where
  "uuid_create h =
     (\<lparr>time_low = ucast (host_time h),
       time_mid = ucast (drop_bit 32 (host_time h)),
       time_hi_and_version = (ucast (drop_bit 48 (host_time h)) AND 0x0fff) OR 0x1000,
       clock_seq_hi_and_reserved = (ucast (drop_bit 8 (host_clock_seq h)) AND 0x3f) OR 0x80,
       clock_seq_low = ucast (host_clock_seq h),
       node = [ucast (drop_bit 40 (host_node h)), ucast (drop_bit 32 (host_node h)),
               ucast (drop_bit 24 (host_node h)), ucast (drop_bit 16 (host_node h)),
               ucast (drop_bit 8 (host_node h)), ucast (host_node h)]\<rparr>,
      create_status h)"

text \<open>
  Modelled from the spec: \<^verbatim>\<open>uuid_to_string\<close> is the host's. It prints the canonical
  36-character form of section 3,
  \<^verbatim>\<open>"%08x-%04x-%04x-%02x%02x-%02x%02x%02x%02x%02x%02x"\<close>, into a fresh string; when it
  reports a failure there is no string.
\<close>

definition uuid_to_string :: "host \<Rightarrow> uuid_t \<Rightarrow> string option \<times> u32" where
  "uuid_to_string h u =
     (if to_string_status h = uuid_s_ok
      then Some (fmt_x 8 (unat (time_low u)) @ ''-'' @ fmt_x 4 (unat (time_mid u)) @ ''-'' @
                 fmt_x 4 (unat (time_hi_and_version u)) @ ''-'' @
                 fmt_x 2 (unat (clock_seq_hi_and_reserved u)) @ fmt_x 2 (unat (clock_seq_low u)) @ ''-'' @
                 fmt_x 2 (unat (node u ! 0)) @ fmt_x 2 (unat (node u ! 1)) @
                 fmt_x 2 (unat (node u ! 2)) @ fmt_x 2 (unat (node u ! 3)) @
                 fmt_x 2 (unat (node u ! 4)) @ fmt_x 2 (unat (node u ! 5)))
      else None,
      to_string_status h)"

section \<open>The generator: \<^verbatim>\<open>src/uuid-freebsd.c\<close>\<close>

text \<open>
  \<^verbatim>\<open>arc4random()\<close> is the host's random source. C leaves the order in which the
  arguments of one \<^verbatim>\<open>sprintf\<close> call are evaluated open, so the draws of a call are
  indexed by the position of the argument they appear in: \<open>arc4random k\<close> is the
  value drawn for argument \<open>k\<close>. Every theorem holds for every such family of draws.
\<close>

definition bytes_of :: "string \<Rightarrow> byte list" where
  "bytes_of s = map of_char s"

text \<open>
  \<^verbatim>\<open>strcpy(strbuf + off, p)\<close> on a buffer holding the string \<open>s\<close>: the bytes of \<open>p\<close>
  and a NUL land at offset \<open>off\<close>. When \<open>s\<close> is shorter than \<open>off\<close> its own NUL still
  ends the string.
\<close>

definition strcpy_at :: "string \<Rightarrow> nat \<Rightarrow> string \<Rightarrow> string" where
  "strcpy_at s off p = (if off \<le> length s then take off s @ p else s)"

definition c_str :: "string option \<Rightarrow> string" where
  "c_str p = (case p of Some s \<Rightarrow> s | None \<Rightarrow> [])"

text \<open>
  \<open>internal_uuid_strbuf\<close> is the \<^verbatim>\<open>switch\<close> of \<^verbatim>\<open>internal_uuid_create\<close>: the contents of
  \<^verbatim>\<open>strbuf\<close> when the \<^verbatim>\<open>switch\<close> is left, or the error reported inside it. \<open>ns\<close> is
  \<open>[]\<close> where the C passes \<^verbatim>\<open>NULL\<close> (the branches that read it are never called so);
  \<open>len\<close> is never negative at a call site and is a \<open>nat\<close>. The promoted \<^verbatim>\<open>int\<close>
  operands of \<^verbatim>\<open>&\<close> and \<^verbatim>\<open>|\<close> on digest bytes are below 256, so they are \<open>nat\<close>s.
\<close>

definition internal_uuid_strbuf ::
  "host \<Rightarrow> (nat \<Rightarrow> u32) \<Rightarrow> int \<Rightarrow> byte list \<Rightarrow> string option \<Rightarrow> nat \<Rightarrow> error + string" where
  "internal_uuid_strbuf h arc4random v ns ptr len =
     (if v = 0 then
        Inr (take 36 (c_str ptr))
      else if v = 1 then
        (case uuid_create h of
           (uu, status) \<Rightarrow>
             if status = uuid_s_ok then
               (case uuid_to_string h uu of
                  (str, status') \<Rightarrow>
                    if status' = uuid_s_ok then
                      (let strbuf = take 36 (c_str str) in
                       Inr (if ptr \<noteq> None \<and> len \<le> 36
                            then strcpy_at strbuf (36 - len) (c_str ptr)
                            else strbuf))
                    else Inl (External_Routine_Exception (sint status')))
             else Inl (External_Routine_Exception (sint status)))
      else if v = 3 then
        (let ctx = MD5Init;
             ctx = MD5Update ctx ns 16;
             ctx = MD5Update ctx (bytes_of (c_str ptr)) len;
             buf = MD5Final ctx
         in Inr (fmt_x 2 (unat (buf ! 0)) @ fmt_x 2 (unat (buf ! 1)) @
                 fmt_x 2 (unat (buf ! 2)) @ fmt_x 2 (unat (buf ! 3)) @ ''-'' @
                 fmt_x 2 (unat (buf ! 4)) @ fmt_x 2 (unat (buf ! 5)) @ ''-'' @
                 fmt_x 2 ((unat (buf ! 6) AND 0xf) OR 0x30) @ fmt_x 2 (unat (buf ! 7)) @ ''-'' @
                 fmt_x 2 ((unat (buf ! 8) AND 0x3F) OR 0x80) @ fmt_x 2 (unat (buf ! 9)) @ ''-'' @
                 fmt_x 2 (unat (buf ! 10)) @ fmt_x 2 (unat (buf ! 11)) @
                 fmt_x 2 (unat (buf ! 12)) @ fmt_x 2 (unat (buf ! 13)) @
                 fmt_x 2 (unat (buf ! 14)) @ fmt_x 2 (unat (buf ! 15))))
      else if v = 5 then
        (let ctx = SHA1_Init;
             ctx = SHA1_Update ctx ns 16;
             ctx = SHA1_Update ctx (bytes_of (c_str ptr)) len;
             buf = SHA1_Final ctx
         in Inr (fmt_x 2 (unat (buf ! 0)) @ fmt_x 2 (unat (buf ! 1)) @
                 fmt_x 2 (unat (buf ! 2)) @ fmt_x 2 (unat (buf ! 3)) @ ''-'' @
                 fmt_x 2 (unat (buf ! 4)) @ fmt_x 2 (unat (buf ! 5)) @ ''-'' @
                 fmt_x 2 ((unat (buf ! 6) AND 0xf) OR 0x50) @ fmt_x 2 (unat (buf ! 7)) @ ''-'' @
                 fmt_x 2 ((unat (buf ! 8) AND 0x3F) OR 0x80) @ fmt_x 2 (unat (buf ! 9)) @ ''-'' @
                 fmt_x 2 (unat (buf ! 10)) @ fmt_x 2 (unat (buf ! 11)) @
                 fmt_x 2 (unat (buf ! 12)) @ fmt_x 2 (unat (buf ! 13)) @
                 fmt_x 2 (unat (buf ! 14)) @ fmt_x 2 (unat (buf ! 15))))
      else
        Inr (fmt_x 8 (unat (arc4random 0)) @ ''-'' @
             fmt_x 4 (unat (arc4random 1 AND 0xffff)) @ ''-'' @
             fmt_x 4 (unat ((arc4random 2 AND 0xfff) OR 0x4000)) @ ''-'' @
             fmt_x 4 (unat ((arc4random 3 AND 0x3fff) OR 0x8000)) @ ''-'' @
             fmt_x 4 (unat (arc4random 4 AND 0xffff)) @
             fmt_x 8 (unat (arc4random 5))))"

definition internal_uuid_create ::
  "host \<Rightarrow> (nat \<Rightarrow> u32) \<Rightarrow> int \<Rightarrow> byte list \<Rightarrow> string option \<Rightarrow> nat \<Rightarrow> error + pg_uuid_t" where
  "internal_uuid_create h arc4random v ns ptr len =
     (case internal_uuid_strbuf h arc4random v ns ptr len of
        Inl e \<Rightarrow> Inl e
      | Inr strbuf \<Rightarrow> uuid_in strbuf)"

definition uuid_nil :: "host \<Rightarrow> (nat \<Rightarrow> u32) \<Rightarrow> error + pg_uuid_t" where
  "uuid_nil h arc4random =
     internal_uuid_create h arc4random 0 [] (Some ''00000000-0000-0000-0000-000000000000'') 36"

definition uuid_ns_dns :: "host \<Rightarrow> (nat \<Rightarrow> u32) \<Rightarrow> error + pg_uuid_t" where
  "uuid_ns_dns h arc4random =
     internal_uuid_create h arc4random 0 [] (Some ''6ba7b810-9dad-11d1-80b4-00c04fd430c8'') 36"

definition uuid_ns_url :: "host \<Rightarrow> (nat \<Rightarrow> u32) \<Rightarrow> error + pg_uuid_t" where
  "uuid_ns_url h arc4random =
     internal_uuid_create h arc4random 0 [] (Some ''6ba7b811-9dad-11d1-80b4-00c04fd430c8'') 36"

definition uuid_ns_oid :: "host \<Rightarrow> (nat \<Rightarrow> u32) \<Rightarrow> error + pg_uuid_t" where
  "uuid_ns_oid h arc4random =
     internal_uuid_create h arc4random 0 [] (Some ''6ba7b812-9dad-11d1-80b4-00c04fd430c8'') 36"

definition uuid_ns_x500 :: "host \<Rightarrow> (nat \<Rightarrow> u32) \<Rightarrow> error + pg_uuid_t" where
  "uuid_ns_x500 h arc4random =
     internal_uuid_create h arc4random 0 [] (Some ''6ba7b814-9dad-11d1-80b4-00c04fd430c8'') 36"

definition uuid_generate_v1 :: "host \<Rightarrow> (nat \<Rightarrow> u32) \<Rightarrow> error + pg_uuid_t" where
  "uuid_generate_v1 h arc4random = internal_uuid_create h arc4random 1 [] None 0"

text \<open>The local \<^verbatim>\<open>buf\<close> of \<^verbatim>\<open>uuid_generate_v1mc\<close> after its \<^verbatim>\<open>sprintf\<close>.\<close>

definition v1mc_buf :: "(nat \<Rightarrow> u32) \<Rightarrow> string" where
  "v1mc_buf arc4random =
     ''-'' @ fmt_x 4 (unat ((arc4random 0 AND 0x3FFF) OR 0x8000)) @ ''-'' @
     fmt_x 4 (unat ((arc4random 1 AND 0xffff) OR 0x0300)) @
     fmt_x 8 (unat (arc4random 2))"

definition uuid_generate_v1mc :: "host \<Rightarrow> (nat \<Rightarrow> u32) \<Rightarrow> error + pg_uuid_t" where
  "uuid_generate_v1mc h arc4random =
     internal_uuid_create h arc4random 1 [] (Some (v1mc_buf arc4random)) 18"

definition uuid_generate_v3 ::
  "host \<Rightarrow> (nat \<Rightarrow> u32) \<Rightarrow> pg_uuid_t \<Rightarrow> string \<Rightarrow> error + pg_uuid_t" where
  "uuid_generate_v3 h arc4random ns name =
     internal_uuid_create h arc4random 3 ns (Some name) (length name)"

definition uuid_generate_v4 :: "host \<Rightarrow> (nat \<Rightarrow> u32) \<Rightarrow> error + pg_uuid_t" where
  "uuid_generate_v4 h arc4random = internal_uuid_create h arc4random 4 [] None 0"

definition uuid_generate_v5 ::
  "host \<Rightarrow> (nat \<Rightarrow> u32) \<Rightarrow> pg_uuid_t \<Rightarrow> string \<Rightarrow> error + pg_uuid_t" where
  "uuid_generate_v5 h arc4random ns name =
     internal_uuid_create h arc4random 5 ns (Some name) (length name)"

subsection \<open>Reading the fields of a UUID\<close>

definition version_nibble :: "pg_uuid_t \<Rightarrow> byte" where
  "version_nibble u = drop_bit 4 (u ! 6)"

definition variant_bits :: "pg_uuid_t \<Rightarrow> byte" where
  "variant_bits u = drop_bit 6 (u ! 8)"

subsection \<open>The canonical string of sixteen bytes\<close>

text \<open>
  \<open>hexw w n\<close> is the last \<open>w\<close> hexadecimal digits of \<open>n\<close>, \<open>hex2 b\<close> the two digits
  of a byte, and \<open>uuid_out u\<close> the 8-4-4-4-12 string of a UUID. They describe what the
  generators print; the generators themselves are defined above without them.
\<close>

fun hexw :: "nat \<Rightarrow> nat \<Rightarrow> string" where
  "hexw 0 n = []"
| "hexw (Suc w) n = hexw w (n div 16) @ [hex_digit (n mod 16)]"

definition hex2 :: "byte \<Rightarrow> string" where
  "hex2 b = [hex_digit (unat b div 16), hex_digit (unat b mod 16)]"

definition uuid_out :: "pg_uuid_t \<Rightarrow> string" where
  "uuid_out u =
     concat (map hex2 (take 4 u)) @ ''-'' @ concat (map hex2 (take 2 (drop 4 u))) @ ''-'' @
     concat (map hex2 (take 2 (drop 6 u))) @ ''-'' @ concat (map hex2 (take 2 (drop 8 u))) @ ''-'' @
     concat (map hex2 (drop 10 u))"

text \<open>
  The bytes each strategy is shown to produce: a \<open>uuid_t\<close> in field order, the
  version-4 layout of the six draws, the eight bytes \<open>uuid_generate_v1mc\<close> substitutes,
  and a digest with its version and variant stamped.
\<close>

definition uuid_t_bytes :: "uuid_t \<Rightarrow> byte list" where
  "uuid_t_bytes u =
     be_bytes (time_low u) @
     [ucast (drop_bit 8 (time_mid u)), ucast (time_mid u),
      ucast (drop_bit 8 (time_hi_and_version u)), ucast (time_hi_and_version u),
      clock_seq_hi_and_reserved u, clock_seq_low u,
      node u ! 0, node u ! 1, node u ! 2, node u ! 3, node u ! 4, node u ! 5]"

definition v4_bytes :: "(nat \<Rightarrow> u32) \<Rightarrow> byte list" where
  "v4_bytes r =
     be_bytes (r 0) @
     [ucast (drop_bit 8 (r 1)), ucast (r 1),
      (ucast (drop_bit 8 (r 2)) AND 0x0f) OR 0x40, ucast (r 2),
      (ucast (drop_bit 8 (r 3)) AND 0x3f) OR 0x80, ucast (r 3),
      ucast (drop_bit 8 (r 4)), ucast (r 4)] @
     be_bytes (r 5)"

definition v1mc_bytes :: "(nat \<Rightarrow> u32) \<Rightarrow> byte list" where
  "v1mc_bytes r =
     [(ucast (drop_bit 8 (r 0)) AND 0x3f) OR 0x80, ucast (r 0),
      ucast (drop_bit 8 (r 1)) OR 0x03, ucast (r 1)] @
     be_bytes (r 2)"

definition digest_bytes :: "byte \<Rightarrow> byte list \<Rightarrow> byte list" where
  "digest_bytes v d = (take 16 d)[6 := (d ! 6 AND 0x0f) OR v, 8 := (d ! 8 AND 0x3f) OR 0x80]"

subsection \<open>A concrete host state and concrete draws\<close>

definition example_host :: host where
  "example_host = \<lparr>host_time = 0x1ec9414c232ab00, host_clock_seq = 0x1234,
     host_node = 0x0123456789ab, create_status = 0, to_string_status = 0\<rparr>"

definition example_draws :: "nat \<Rightarrow> u32" where
  "example_draws k = [0xdeadbeef, 0x12345678, 0x0badf00d, 0xcafebabe, 0xffffffff, 0x00000001] ! k"

section \<open>Printing and parsing\<close>

lemma upt_0_numeral: "[0..<numeral n] = 0 # [1..<numeral n]"
  by (simp add: upt_rec [of 0])

lemma upt_1_numeral:
  "[Suc 0..<numeral n] = (if Suc 0 < numeral n then Suc 0 # [2..<numeral n] else [])"
  by (simp add: upt_rec [of "Suc 0"] numeral_2_eq_2)

lemma list_all_upt: "list_all P [0..<n] \<Longrightarrow> d < n \<Longrightarrow> P d"
  by (simp add: list_all_iff)

lemma xdigit_val_hex_digit: "d < 16 \<Longrightarrow> xdigit_val (hex_digit d) = Some d"
proof (rule list_all_upt [where P = "\<lambda>d. xdigit_val (hex_digit d) = Some d"])
  show "list_all (\<lambda>d. xdigit_val (hex_digit d) = Some d) [0..<16]"
    by (simp add: upt_0_numeral upt_1_numeral xdigit_val_def hex_digit_def)
qed

lemma hex_digit_not_hyphen: "d < 16 \<Longrightarrow> hex_digit d \<noteq> CHR ''-''"
proof (rule list_all_upt [where P = "\<lambda>d. hex_digit d \<noteq> CHR ''-''"])
  show "list_all (\<lambda>d. hex_digit d \<noteq> CHR ''-'') [0..<16]"
    by (simp add: upt_0_numeral upt_1_numeral hex_digit_def)
qed

lemma hex_digit_not_brace: "d < 16 \<Longrightarrow> hex_digit d \<noteq> CHR ''{''"
proof (rule list_all_upt [where P = "\<lambda>d. hex_digit d \<noteq> CHR ''{''"])
  show "list_all (\<lambda>d. hex_digit d \<noteq> CHR ''{'') [0..<16]"
    by (simp add: upt_0_numeral upt_1_numeral hex_digit_def)
qed

lemma hex_digit_0: "hex_digit 0 = CHR ''0''"
  by (simp add: hex_digit_def)

lemma hexw_0: "hexw w 0 = replicate w (CHR ''0'')"
  by (induction w) (simp_all add: hex_digit_0 replicate_append_same)

lemma length_hexw: "length (hexw w n) = w"
  by (induction w arbitrary: n) simp_all

lemma to_hex_hexw: "n < 16 ^ w \<Longrightarrow> 0 < w \<Longrightarrow> fmt_x w n = hexw w n"
proof (induction w arbitrary: n)
  case 0
  then show ?case by simp
next
  case (Suc w)
  show ?case
  proof (cases "n < 16")
    case True
    then show ?thesis
      by (simp add: fmt_x_def to_hex.simps [of n] hexw_0)
  next
    case False
    then have w: "0 < w"
      using Suc.prems by (cases w) auto
    have d: "n div 16 < 16 ^ w"
      using Suc.prems by (simp add: less_mult_imp_div_less mult.commute)
    have ih: "fmt_x w (n div 16) = hexw w (n div 16)"
      using Suc.IH [OF d w] .
    have len: "length (to_hex (n div 16)) \<le> w"
    proof -
      have "length (fmt_x w (n div 16)) = w"
        by (simp add: ih length_hexw)
      then show ?thesis
        by (simp add: fmt_x_def)
    qed
    have "to_hex n = to_hex (n div 16) @ [hex_digit (n mod 16)]"
      using False by (simp add: to_hex.simps [of n])
    then show ?thesis
      using ih len by (simp add: fmt_x_def Suc_diff_le)
  qed
qed

lemma hexw_2: "hexw 2 n = [hex_digit (n div 16 mod 16), hex_digit (n mod 16)]"
  by (simp add: numeral_2_eq_2)

lemma hex2_hexw: "hex2 b = hexw 2 (unat b)"
proof -
  have "unat b < 256"
    using unsigned_less [of b, where 'a = nat] by simp
  then have "unat b div 16 mod 16 = unat b div 16"
    by simp
  then show ?thesis
    by (simp add: hex2_def hexw_2)
qed

lemma hexw_add: "hexw (a + b) n = hexw a (n div 16 ^ b) @ hexw b n"
  by (induction b arbitrary: n) (simp_all add: div_mult2_eq)

lemma hexw_mod: "hexw w (n mod 16 ^ w) = hexw w n"
proof (induction w arbitrary: n)
  case 0
  then show ?case by simp
next
  case (Suc w)
  have "(n mod (16 * 16 ^ w)) div 16 = (n div 16) mod 16 ^ w"
    by (simp add: mod_mult2_eq)
  moreover have "(n mod (16 * 16 ^ w)) mod 16 = n mod 16"
    by (simp add: mod_mod_cancel)
  ultimately show ?case
    using Suc.IH [of "n div 16"] by simp
qed

lemma unat_byte_div: "unat (b :: byte) div 16 < 16"
  using unsigned_less [of b, where 'a = nat] by (simp add: less_mult_imp_div_less)

lemma string_to_uuid_loop_step:
  "i < 16 \<Longrightarrow> string_to_uuid_loop i (hex2 b @ rest) =
     (case string_to_uuid_loop (Suc i)
             (if rest \<noteq> [] \<and> hd rest = CHR ''-'' \<and> i mod 2 = 1 \<and> i < 15 then tl rest else rest) of
        Some (bs, src') \<Rightarrow> Some (b # bs, src')
      | None \<Rightarrow> None)"
  by (subst string_to_uuid_loop.simps)
     (simp add: hex2_def xdigit_val_hex_digit unat_byte_div mult_div_mod_eq split: option.split)

lemma string_to_uuid_loop_done: "16 \<le> i \<Longrightarrow> string_to_uuid_loop i src = Some ([], src)"
  by (simp add: string_to_uuid_loop.simps)

lemma hex2_not_Nil: "hex2 b @ r \<noteq> []"
  by (simp add: hex2_def)

lemma hd_hex2_hyphen: "hd (hex2 b @ r) \<noteq> CHR ''-''"
  by (simp add: hex2_def hex_digit_not_hyphen unat_byte_div)

lemma hd_hex2_brace: "hd (hex2 b @ r) \<noteq> CHR ''{''"
  by (simp add: hex2_def hex_digit_not_brace unat_byte_div)

lemma uuid_in_out16:
  "uuid_in (uuid_out [b0, b1, b2, b3, b4, b5, b6, b7, b8, b9, b10, b11, b12, b13, b14, b15]) =
     Inr [b0, b1, b2, b3, b4, b5, b6, b7, b8, b9, b10, b11, b12, b13, b14, b15]"
proof -
  have s: "string_to_uuid_loop 0 (uuid_out [b0, b1, b2, b3, b4, b5, b6, b7, b8, b9, b10, b11, b12, b13, b14, b15]) =
    Some ([b0, b1, b2, b3, b4, b5, b6, b7, b8, b9, b10, b11, b12, b13, b14, b15], [])"
    by (simp add: uuid_out_def string_to_uuid_loop_step hd_hex2_hyphen hex2_not_Nil
        string_to_uuid_loop_step [where rest = "[]", simplified]
        string_to_uuid_loop_done)
  have b: "hd (uuid_out [b0, b1, b2, b3, b4, b5, b6, b7, b8, b9, b10, b11, b12, b13, b14, b15]) \<noteq> CHR ''{''"
    by (simp add: uuid_out_def hd_hex2_brace)
  show ?thesis
    by (simp add: uuid_in_def s b)
qed

lemma length_hex2: "length (hex2 b) = 2"
  by (simp add: hex2_def)

lemma unat_lt_256: "unat (b :: byte) < 256"
  using unsigned_less [of b, where 'a = nat] by simp

lemma fmt_x_2_byte: "fmt_x 2 (unat (b :: byte)) = hex2 b"
  using unat_lt_256 [of b] by (simp add: to_hex_hexw hex2_hexw)

lemma unat_drop_bit_div:
  fixes x :: "'a::len word"
  shows "unat (drop_bit k x) = unat x div 2 ^ k"
proof -
  have "unat (drop_bit k x) = drop_bit k (unat x)"
    by (rule unat_drop_bit_eq)
  also have "\<dots> = unat x div 2 ^ k"
    by (rule drop_bit_eq_div)
  finally show ?thesis .
qed

lemma hex2_ucast:
  fixes x :: "'a::len word"
  shows "hex2 (ucast x :: byte) = hexw 2 (unat x)"
proof -
  have "unat (ucast x :: byte) = unat x mod 16 ^ 2"
    by (simp add: unsigned_ucast_eq take_bit_eq_mod)
  then show ?thesis
    by (simp only: hex2_hexw hexw_mod)
qed

lemma unat_lt_of_drop_bit:
  fixes x :: "'a::len word"
  assumes "drop_bit k x = 0"
  shows "unat x < 2 ^ k"
proof -
  have "unat (drop_bit k x) = 0"
    using assms by simp
  then have "unat x div 2 ^ k = 0"
    by (simp only: unat_drop_bit_div)
  then show ?thesis
    by (simp add: div_eq_0_iff)
qed

lemma fmt_x_4_word:
  fixes x :: "'a::len word"
  assumes "drop_bit 16 x = 0"
  shows "fmt_x 4 (unat x) = hex2 (ucast (drop_bit 8 x)) @ hex2 (ucast x)"
proof -
  have "unat x < 16 ^ 4"
    using unat_lt_of_drop_bit [OF assms] by simp
  then have "fmt_x 4 (unat x) = hexw (2 + 2) (unat x)"
    by (simp add: to_hex_hexw)
  also have "\<dots> = hexw 2 (unat x div 2 ^ 8) @ hexw 2 (unat x)"
    by (simp only: hexw_add) simp
  finally show ?thesis
    by (simp only: hex2_ucast unat_drop_bit_div)
qed

lemma fmt_x_8_word:
  fixes x :: "'a::len word"
  assumes "drop_bit 32 x = 0"
  shows "fmt_x 8 (unat x) =
    hex2 (ucast (drop_bit 24 x)) @ hex2 (ucast (drop_bit 16 x)) @
    hex2 (ucast (drop_bit 8 x)) @ hex2 (ucast x)"
proof -
  have "unat x < 16 ^ 8"
    using unat_lt_of_drop_bit [OF assms] by simp
  then have "fmt_x 8 (unat x) = hexw (2 + (2 + (2 + 2))) (unat x)"
    by (simp add: to_hex_hexw)
  also have "\<dots> = hexw 2 (unat x div 2 ^ 24) @ hexw 2 (unat x div 2 ^ 16) @
      hexw 2 (unat x div 2 ^ 8) @ hexw 2 (unat x)"
    by (simp only: hexw_add) simp
  finally show ?thesis
    by (simp only: hex2_ucast unat_drop_bit_div)
qed

lemma drop_bit_32_u32: "drop_bit 32 (x :: u32) = 0"
  by (rule bit_word_eqI) (auto simp: bit_simps dest: bit_imp_le_length)

lemma drop_bit_16_u16: "drop_bit 16 (x :: 16 word) = 0"
  by (rule bit_word_eqI) (auto simp: bit_simps dest: bit_imp_le_length)

lemma fmt_x_2_stamp:
  "fmt_x 2 ((unat (b :: byte) AND unat (m :: byte)) OR unat (v :: byte)) = hex2 ((b AND m) OR v)"
  by (simp flip: unsigned_and_eq unsigned_or_eq add: fmt_x_2_byte)

lemmas fmt_x_2_v3 = fmt_x_2_stamp [of _ "0xf" "0x30", simplified]

lemmas fmt_x_2_v5 = fmt_x_2_stamp [of _ "0xf" "0x50", simplified]

lemmas fmt_x_2_var = fmt_x_2_stamp [of _ "0x3f" "0x80", simplified]

lemma u32_consts:
  "(0xffff :: u32) = mask 16" "(0xfff :: u32) = mask 12" "(0x3fff :: u32) = mask 14"
  "(0x4000 :: u32) = 2 ^ 14" "(0x8000 :: u32) = 2 ^ 15" "(0x300 :: u32) = push_bit 8 (mask 2)"
  by (simp_all add: mask_eq_exp_minus_1)

lemma byte_consts:
  "(0x0f :: byte) = mask 4" "(0x3f :: byte) = mask 6" "(0x03 :: byte) = mask 2"
  "(0x40 :: byte) = 2 ^ 6" "(0x80 :: byte) = 2 ^ 7"
  by (simp_all add: mask_eq_exp_minus_1)

lemma field16_hi: "drop_bit 16 (x AND 0xffff :: u32) = 0"
  unfolding u32_consts by (rule bit_word_eqI) (auto simp: bit_simps)

lemma field16_b1: "(ucast (drop_bit 8 (x AND 0xffff :: u32)) :: byte) = ucast (drop_bit 8 x)"
  unfolding u32_consts by (rule bit_word_eqI) (auto simp: bit_simps)

lemma field16_b0: "(ucast (x AND 0xffff :: u32) :: byte) = ucast x"
  unfolding u32_consts by (rule bit_word_eqI) (auto simp: bit_simps)

lemma version4_hi: "drop_bit 16 ((x AND 0xfff) OR 0x4000 :: u32) = 0"
  unfolding u32_consts by (rule bit_word_eqI) (auto simp: bit_simps)

lemma version4_b1: "(ucast (drop_bit 8 ((x AND 0xfff) OR 0x4000 :: u32)) :: byte) = (ucast (drop_bit 8 x) AND 0x0f) OR 0x40"
  unfolding u32_consts byte_consts by (rule bit_word_eqI) (auto simp: bit_simps)

lemma byte_eqI:
  fixes a b :: byte
  assumes "list_all (\<lambda>n. bit a n = bit b n) [0..<8]"
  shows "a = b"
proof (rule bit_word_eqI)
  fix n
  assume "n < LENGTH(8)"
  then have "n < 8"
    by simp
  with assms show "bit a n = bit b n"
    by (rule list_all_upt)
qed

lemma version4_b0: "(ucast ((x AND 0xfff) OR 0x4000 :: u32) :: byte) = ucast x"
  by (rule byte_eqI) (simp add: upt_0_numeral upt_1_numeral bit_simps)

lemma variant_hi: "drop_bit 16 ((x AND 0x3fff) OR 0x8000 :: u32) = 0"
  unfolding u32_consts by (rule bit_word_eqI) (auto simp: bit_simps)

lemma variant_b1: "(ucast (drop_bit 8 ((x AND 0x3fff) OR 0x8000 :: u32)) :: byte) = (ucast (drop_bit 8 x) AND 0x3f) OR 0x80"
  unfolding u32_consts byte_consts by (rule bit_word_eqI) (auto simp: bit_simps)

lemma variant_b0: "(ucast ((x AND 0x3fff) OR 0x8000 :: u32) :: byte) = ucast x"
  by (rule byte_eqI) (simp add: upt_0_numeral upt_1_numeral bit_simps)

lemma multicast_hi: "drop_bit 16 ((x AND 0xffff) OR 0x300 :: u32) = 0"
  unfolding u32_consts by (rule bit_word_eqI) (auto simp: bit_simps)

lemma multicast_b1: "(ucast (drop_bit 8 ((x AND 0xffff) OR 0x300 :: u32)) :: byte) = ucast (drop_bit 8 x) OR 0x03"
  unfolding u32_consts byte_consts by (rule bit_word_eqI) (auto simp: bit_simps)

lemma multicast_b0: "(ucast ((x AND 0xffff) OR 0x300 :: u32) :: byte) = ucast x"
  unfolding u32_consts by (rule bit_word_eqI) (auto simp: bit_simps)

lemma length_MD5: "length (MD5 m) = 16"
  by (simp add: MD5_def le_bytes_def split: prod.split)

lemma length_SHA1: "length (SHA1 m) = 20"
  by (simp add: SHA1_def be_bytes_def split: prod.split)

lemma take_16_nth:
  assumes "16 \<le> length d"
  shows "take 16 d = [d ! 0, d ! 1, d ! 2, d ! 3, d ! 4, d ! 5, d ! 6, d ! 7,
                      d ! 8, d ! 9, d ! 10, d ! 11, d ! 12, d ! 13, d ! 14, d ! 15]"
    (is "_ = ?r")
proof (rule nth_equalityI)
  show "length (take 16 d) = length ?r"
    using assms by simp
next
  fix i
  assume "i < length (take 16 d)"
  then have i: "i < 16"
    by simp
  have "list_all (\<lambda>i. take 16 d ! i = ?r ! i) [0..<16]"
    by (simp add: upt_0_numeral upt_1_numeral)
  then show "take 16 d ! i = ?r ! i"
    using i by (rule list_all_upt)
qed

lemma digest_bytes_nth:
  assumes "16 \<le> length d"
  shows "digest_bytes v d =
    [d ! 0, d ! 1, d ! 2, d ! 3, d ! 4, d ! 5, (d ! 6 AND 0x0f) OR v, d ! 7,
     (d ! 8 AND 0x3f) OR 0x80, d ! 9, d ! 10, d ! 11, d ! 12, d ! 13, d ! 14, d ! 15]"
  by (simp add: digest_bytes_def take_16_nth [OF assms])

lemma strbuf_v3:
  "internal_uuid_strbuf h r 3 ns ptr len =
     Inr (uuid_out (digest_bytes 0x30 (MD5 (take 16 ns @ take len (bytes_of (c_str ptr))))))"
  by (simp add: internal_uuid_strbuf_def Let_def MD5Init_def MD5Update_def MD5Final_def
      fmt_x_2_v3 fmt_x_2_var fmt_x_2_byte uuid_out_def digest_bytes_nth length_MD5)

lemma strbuf_v5:
  "internal_uuid_strbuf h r 5 ns ptr len =
     Inr (uuid_out (digest_bytes 0x50 (SHA1 (take 16 ns @ take len (bytes_of (c_str ptr))))))"
  by (simp add: internal_uuid_strbuf_def Let_def SHA1_Init_def SHA1_Update_def SHA1_Final_def
      fmt_x_2_v5 fmt_x_2_var fmt_x_2_byte uuid_out_def digest_bytes_nth length_SHA1)

lemma fmt_field_u32: "fmt_x 8 (unat (x :: u32)) = concat (map hex2 (be_bytes x))"
  by (simp add: fmt_x_8_word drop_bit_32_u32 be_bytes_def)

lemma fmt_field_u16:
  "fmt_x 4 (unat (x :: 16 word)) = hex2 (ucast (drop_bit 8 x)) @ hex2 (ucast x)"
  by (simp add: fmt_x_4_word drop_bit_16_u16)

lemma fmt_field_ffff:
  "fmt_x 4 (unat (x AND 0xffff :: u32)) = hex2 (ucast (drop_bit 8 x)) @ hex2 (ucast x)"
  by (simp only: fmt_x_4_word [OF field16_hi] field16_b1 field16_b0)

lemma fmt_field_version4:
  "fmt_x 4 (unat ((x AND 0xfff) OR 0x4000 :: u32)) =
     hex2 ((ucast (drop_bit 8 x) AND 0x0f) OR 0x40) @ hex2 (ucast x)"
  by (simp only: fmt_x_4_word [OF version4_hi] version4_b1 version4_b0)

lemma fmt_field_variant:
  "fmt_x 4 (unat ((x AND 0x3fff) OR 0x8000 :: u32)) =
     hex2 ((ucast (drop_bit 8 x) AND 0x3f) OR 0x80) @ hex2 (ucast x)"
  by (simp only: fmt_x_4_word [OF variant_hi] variant_b1 variant_b0)

lemma fmt_field_multicast:
  "fmt_x 4 (unat ((x AND 0xffff) OR 0x0300 :: u32)) =
     hex2 (ucast (drop_bit 8 x) OR 0x03) @ hex2 (ucast x)"
  by (simp only: fmt_x_4_word [OF multicast_hi] multicast_b1 multicast_b0)

lemma strbuf_v4:
  assumes "v \<noteq> 0" "v \<noteq> 1" "v \<noteq> 3" "v \<noteq> 5"
  shows "internal_uuid_strbuf h r v ns ptr len = Inr (uuid_out (v4_bytes r))"
  using assms
  by (simp add: internal_uuid_strbuf_def fmt_field_u32 fmt_field_ffff fmt_field_version4
      fmt_field_variant uuid_out_def v4_bytes_def be_bytes_def)

lemma length_uuid_out:
  "length (uuid_out [b0, b1, b2, b3, b4, b5, b6, b7, b8, b9, b10, b11, b12, b13, b14, b15]) = 36"
  by (simp add: uuid_out_def length_hex2)

lemma uuid_to_string_ok:
  assumes "to_string_status h = uuid_s_ok"
  shows "uuid_to_string h u = (Some (uuid_out (uuid_t_bytes u)), uuid_s_ok)"
  using assms
  by (simp add: uuid_to_string_def fmt_field_u32 fmt_field_u16 fmt_x_2_byte uuid_out_def
      uuid_t_bytes_def be_bytes_def)

lemma length_uuid_t_out: "length (uuid_out (uuid_t_bytes u)) = 36"
  by (simp add: uuid_t_bytes_def be_bytes_def length_uuid_out)

lemma strbuf_v1:
  assumes "create_status h = uuid_s_ok" "to_string_status h = uuid_s_ok"
  shows "internal_uuid_strbuf h r 1 ns None len =
    Inr (uuid_out (uuid_t_bytes (fst (uuid_create h))))"
  using assms
  by (simp add: internal_uuid_strbuf_def uuid_to_string_ok c_str_def length_uuid_t_out
      uuid_create_def)

lemma v1mc_buf_eq:
  "v1mc_buf r = ''-'' @ concat (map hex2 (take 2 (v1mc_bytes r))) @ ''-'' @
     concat (map hex2 (drop 2 (v1mc_bytes r)))"
  by (simp add: v1mc_buf_def v1mc_bytes_def fmt_field_variant fmt_field_multicast fmt_field_u32
      be_bytes_def)

lemma length_v1mc_buf: "length (v1mc_buf r) = 18"
  by (simp add: v1mc_buf_eq v1mc_bytes_def be_bytes_def length_hex2)

lemma take_18_uuid_out:
  "take 18 (uuid_out [b0, b1, b2, b3, b4, b5, b6, b7, b8, b9, b10, b11, b12, b13, b14, b15]) @
     ''-'' @ concat (map hex2 [c8, c9]) @ ''-'' @ concat (map hex2 [c10, c11, c12, c13, c14, c15]) =
   uuid_out [b0, b1, b2, b3, b4, b5, b6, b7, c8, c9, c10, c11, c12, c13, c14, c15]"
  by (simp add: uuid_out_def hex2_def)

lemma strbuf_v1mc:
  assumes "create_status h = uuid_s_ok" "to_string_status h = uuid_s_ok"
  shows "internal_uuid_strbuf h r 1 ns (Some (v1mc_buf r)) 18 =
    Inr (uuid_out (take 8 (uuid_t_bytes (fst (uuid_create h))) @ v1mc_bytes r))"
proof -
  have "take 18 (uuid_out (uuid_t_bytes (fst (uuid_create h)))) @ v1mc_buf r =
      uuid_out (take 8 (uuid_t_bytes (fst (uuid_create h))) @ v1mc_bytes r)"
    unfolding v1mc_buf_eq
    by (simp add: uuid_t_bytes_def v1mc_bytes_def be_bytes_def take_18_uuid_out [simplified])
  then show ?thesis
    using assms
    by (simp add: internal_uuid_strbuf_def uuid_to_string_ok c_str_def length_uuid_t_out
      uuid_create_def strcpy_at_def)
qed

lemma uuid_in_out:
  assumes "length u = 16"
  shows "uuid_in (uuid_out u) = Inr u"
proof -
  have "u = take 16 u"
    using assms by simp
  also have "\<dots> = [u ! 0, u ! 1, u ! 2, u ! 3, u ! 4, u ! 5, u ! 6, u ! 7,
                      u ! 8, u ! 9, u ! 10, u ! 11, u ! 12, u ! 13, u ! 14, u ! 15]"
    using assms by (intro take_16_nth) simp
  finally have "u = [u ! 0, u ! 1, u ! 2, u ! 3, u ! 4, u ! 5, u ! 6, u ! 7,
                      u ! 8, u ! 9, u ! 10, u ! 11, u ! 12, u ! 13, u ! 14, u ! 15]" .
  then show ?thesis
    using uuid_in_out16 by metis
qed

lemma length_digest_bytes: "16 \<le> length d \<Longrightarrow> length (digest_bytes v d) = 16"
  by (simp add: digest_bytes_def)

lemma length_v4_bytes: "length (v4_bytes r) = 16"
  by (simp add: v4_bytes_def be_bytes_def)

lemma length_uuid_t_bytes: "length (uuid_t_bytes u) = 16"
  by (simp add: uuid_t_bytes_def be_bytes_def)

lemma length_v1mc_bytes: "length (v1mc_bytes r) = 8"
  by (simp add: v1mc_bytes_def be_bytes_def)

lemma create_v3:
  "uuid_generate_v3 h r ns name = Inr (digest_bytes 0x30 (MD5 (take 16 ns @ bytes_of name)))"
  by (simp add: uuid_generate_v3_def internal_uuid_create_def strbuf_v3 c_str_def bytes_of_def
      uuid_in_out length_digest_bytes length_MD5)

lemma create_v5:
  "uuid_generate_v5 h r ns name = Inr (digest_bytes 0x50 (SHA1 (take 16 ns @ bytes_of name)))"
  by (simp add: uuid_generate_v5_def internal_uuid_create_def strbuf_v5 c_str_def bytes_of_def
      uuid_in_out length_digest_bytes length_SHA1)

lemma create_v4: "uuid_generate_v4 h r = Inr (v4_bytes r)"
  by (simp add: uuid_generate_v4_def internal_uuid_create_def strbuf_v4 uuid_in_out length_v4_bytes)

lemma strbuf_v1_create_failure:
  assumes "create_status h \<noteq> uuid_s_ok"
  shows "internal_uuid_strbuf h r 1 ns ptr len =
    Inl (External_Routine_Exception (sint (create_status h)))"
  using assms by (simp add: internal_uuid_strbuf_def uuid_create_def)

lemma strbuf_v1_to_string_failure:
  assumes "create_status h = uuid_s_ok" "to_string_status h \<noteq> uuid_s_ok"
  shows "internal_uuid_strbuf h r 1 ns ptr len =
    Inl (External_Routine_Exception (sint (to_string_status h)))"
  using assms by (simp add: internal_uuid_strbuf_def uuid_create_def uuid_to_string_def)

lemma create_v1:
  "uuid_generate_v1 h r =
     (if create_status h \<noteq> uuid_s_ok
      then Inl (External_Routine_Exception (sint (create_status h)))
      else if to_string_status h \<noteq> uuid_s_ok
      then Inl (External_Routine_Exception (sint (to_string_status h)))
      else Inr (uuid_t_bytes (fst (uuid_create h))))"
  by (simp add: uuid_generate_v1_def internal_uuid_create_def strbuf_v1_create_failure
      strbuf_v1_to_string_failure strbuf_v1 uuid_in_out length_uuid_t_bytes)

lemma create_v1mc:
  "uuid_generate_v1mc h r =
     (if create_status h \<noteq> uuid_s_ok
      then Inl (External_Routine_Exception (sint (create_status h)))
      else if to_string_status h \<noteq> uuid_s_ok
      then Inl (External_Routine_Exception (sint (to_string_status h)))
      else Inr (take 8 (uuid_t_bytes (fst (uuid_create h))) @ v1mc_bytes r))"
  by (simp add: uuid_generate_v1mc_def internal_uuid_create_def strbuf_v1_create_failure
      strbuf_v1_to_string_failure strbuf_v1mc uuid_in_out length_uuid_t_bytes length_v1mc_bytes)

lemma nibble_stamp_3: "drop_bit 4 ((b AND 0x0f) OR 0x30 :: byte) = 3"
  by (rule byte_eqI) (simp add: upt_0_numeral upt_1_numeral bit_simps)

lemma nibble_stamp_5: "drop_bit 4 ((b AND 0x0f) OR 0x50 :: byte) = 5"
  by (rule byte_eqI) (simp add: upt_0_numeral upt_1_numeral bit_simps)

lemma nibble_stamp_4: "drop_bit 4 ((b AND 0x0f) OR 0x40 :: byte) = 4"
  by (rule byte_eqI) (simp add: upt_0_numeral upt_1_numeral bit_simps)

lemma variant_stamp: "drop_bit 6 ((b AND 0x3f) OR 0x80 :: byte) = 2"
  by (rule byte_eqI) (simp add: upt_0_numeral upt_1_numeral bit_simps)

lemma nibble_stamp_1:
  "drop_bit 4 (ucast (drop_bit 8 ((x AND 0x0fff) OR 0x1000 :: 16 word)) :: byte) = 1"
  by (rule byte_eqI) (simp add: upt_0_numeral upt_1_numeral bit_simps)

lemma nibble_stamp_1':
  "drop_bit 4 (ucast ((y AND 0x0f) OR 0x10 :: 16 word) :: byte) = 1"
  by (rule byte_eqI) (simp add: upt_0_numeral upt_1_numeral bit_simps)

lemma multicast_stamp: "bit (b OR 0x03 :: byte) 0 \<and> bit (b OR 0x03 :: byte) 1"
  by (simp add: bit_simps)

lemma drop_18_uuid_out:
  "drop 18 (uuid_out [b0, b1, b2, b3, b4, b5, b6, b7, b8, b9, b10, b11, b12, b13, b14, b15]) =
     ''-'' @ hex2 b8 @ hex2 b9 @ ''-'' @ concat (map hex2 [b10, b11, b12, b13, b14, b15])"
  by (simp add: uuid_out_def hex2_def)

lemma v1_fields:
  "uuid_t_bytes (fst (uuid_create h)) ! 8 = clock_seq_hi_and_reserved (fst (uuid_create h)) \<and>
   uuid_t_bytes (fst (uuid_create h)) ! 9 = clock_seq_low (fst (uuid_create h)) \<and>
   drop 10 (uuid_t_bytes (fst (uuid_create h))) = node (fst (uuid_create h))"
  by (simp add: uuid_t_bytes_def be_bytes_def uuid_create_def)

lemma v1_last_18:
  "drop 18 (uuid_out (uuid_t_bytes (fst (uuid_create h)))) =
     ''-'' @ hex2 (clock_seq_hi_and_reserved (fst (uuid_create h))) @
     hex2 (clock_seq_low (fst (uuid_create h))) @ ''-'' @
     concat (map hex2 (node (fst (uuid_create h))))"
  by (simp add: uuid_t_bytes_def be_bytes_def uuid_create_def drop_18_uuid_out [simplified])

section \<open>The digests of the DNS namespace followed by \<^verbatim>\<open>www.example.com\<close>\<close>

text \<open>
  Both digests are computed by rewriting: the padded block, its words, the SHA-1
  schedule, and then one fact for each round.
\<close>

lemma replicate_numeral: "replicate (numeral k) x = x # replicate (pred_numeral k) x"
  by (simp add: numeral_eq_Suc)

lemma example_message:
  "[0x6b, 0xa7, 0xb8, 0x10, 0x9d, 0xad, 0x11, 0xd1, 0x80, 0xb4, 0x00, 0xc0, 0x4f, 0xd4, 0x30, 0xc8] @ bytes_of ''www.example.com'' =
    [0x6b, 0xa7, 0xb8, 0x10, 0x9d, 0xad, 0x11, 0xd1, 0x80, 0xb4, 0x00, 0xc0, 0x4f, 0xd4, 0x30, 0xc8,
     0x77, 0x77, 0x77, 0x2e, 0x65, 0x78, 0x61, 0x6d, 0x70, 0x6c, 0x65, 0x2e, 0x63, 0x6f, 0x6d]"
  by (simp add: bytes_of_def)

lemma example_sha1_pad:
  "sha1_pad [0x6b, 0xa7, 0xb8, 0x10, 0x9d, 0xad, 0x11, 0xd1, 0x80, 0xb4, 0x00, 0xc0, 0x4f, 0xd4, 0x30, 0xc8,
     0x77, 0x77, 0x77, 0x2e, 0x65, 0x78, 0x61, 0x6d, 0x70, 0x6c, 0x65, 0x2e, 0x63, 0x6f, 0x6d] =
    [0x6b, 0xa7, 0xb8, 0x10, 0x9d, 0xad, 0x11, 0xd1, 0x80, 0xb4, 0x00, 0xc0, 0x4f, 0xd4, 0x30, 0xc8,
     0x77, 0x77, 0x77, 0x2e, 0x65, 0x78, 0x61, 0x6d, 0x70, 0x6c, 0x65, 0x2e, 0x63, 0x6f, 0x6d, 0x80,
     0x00, 0x00, 0x00, 0x00, 0x00, 0x00, 0x00, 0x00, 0x00, 0x00, 0x00, 0x00, 0x00, 0x00, 0x00, 0x00,
     0x00, 0x00, 0x00, 0x00, 0x00, 0x00, 0x00, 0x00, 0x00, 0x00, 0x00, 0x00, 0x00, 0x00, 0x00, 0xf8]"
  by (simp add: sha1_pad_def pad_zeros_def bit_length_bytes_def replicate_numeral)

lemma example_be_words:
  "be_words [0x6b, 0xa7, 0xb8, 0x10, 0x9d, 0xad, 0x11, 0xd1, 0x80, 0xb4, 0x00, 0xc0, 0x4f, 0xd4, 0x30, 0xc8,
     0x77, 0x77, 0x77, 0x2e, 0x65, 0x78, 0x61, 0x6d, 0x70, 0x6c, 0x65, 0x2e, 0x63, 0x6f, 0x6d, 0x80,
     0x00, 0x00, 0x00, 0x00, 0x00, 0x00, 0x00, 0x00, 0x00, 0x00, 0x00, 0x00, 0x00, 0x00, 0x00, 0x00,
     0x00, 0x00, 0x00, 0x00, 0x00, 0x00, 0x00, 0x00, 0x00, 0x00, 0x00, 0x00, 0x00, 0x00, 0x00, 0xf8] =
    [0x6ba7b810, 0x9dad11d1, 0x80b400c0, 0x4fd430c8, 0x7777772e, 0x6578616d, 0x706c652e, 0x636f6d80,
     0x00000000, 0x00000000, 0x00000000, 0x00000000, 0x00000000, 0x00000000, 0x00000000, 0x000000f8]"
  by (simp add: be32_def)

lemma example_sha1_sched:
  "sha1_sched [0x6ba7b810, 0x9dad11d1, 0x80b400c0, 0x4fd430c8, 0x7777772e, 0x6578616d, 0x706c652e, 0x636f6d80,
     0x00000000, 0x00000000, 0x00000000, 0x00000000, 0x00000000, 0x00000000, 0x00000000, 0x000000f8] =
    [0x6ba7b810, 0x9dad11d1, 0x80b400c0, 0x4fd430c8, 0x7777772e, 0x6578616d, 0x706c652e, 0x636f6d80,
     0x00000000, 0x00000000, 0x00000000, 0x00000000, 0x00000000, 0x00000000, 0x00000000, 0x000000f8,
     0xd62771a1, 0xa4f24233, 0xef86ee2d, 0xf9164009, 0x47d2a067, 0xd323c581, 0x12f44a4f, 0x497b9a3e,
     0x0a096840, 0x6c0c10f9, 0x4dfae827, 0xe63e5093, 0x57bd613c, 0x3db25abd, 0x45dad6fa, 0x74697393,
     0x1c355ae2, 0xe8658872, 0x238fabfd, 0xa07d1ff3, 0xd5fc06cd, 0x08cb5dff, 0xfab5d60d, 0x09c5ff33,
     0xa61b0ef4, 0x31c43c2b, 0x601bbbaa, 0xbbd43653, 0xecbf1a41, 0x42179ef6, 0x311cd88c, 0xf2ec3d26,
     0xb76cc23b, 0x9180e64c, 0xc9085778, 0x481d6cc9, 0xa4ec599a, 0x1422d685, 0x4b5ed978, 0xdc034f48,
     0xca9d43c0, 0xa19c6a98, 0x335f73b7, 0xf6870f58, 0xb1a7e39f, 0x2f0c0dc5, 0x7753992e, 0x1d90ef7a,
     0x37ebb68d, 0x1ea4f266, 0x8657245e, 0x3aa60733, 0x81632236, 0xc2f560ac, 0x986c094b, 0xc2d9d139,
     0x19b9ccac, 0xa3a73ddb, 0x8cecca9f, 0xf5299205, 0xc860cab9, 0xf90a9118, 0x5bfb69da, 0x131a0d38]"
  by (simp add: sha1_sched_def rotl32_def)

lemma example_sha1_rounds:
  "foldl (sha1_round
    [0x6ba7b810, 0x9dad11d1, 0x80b400c0, 0x4fd430c8, 0x7777772e, 0x6578616d, 0x706c652e, 0x636f6d80,
     0x00000000, 0x00000000, 0x00000000, 0x00000000, 0x00000000, 0x00000000, 0x00000000, 0x000000f8,
     0xd62771a1, 0xa4f24233, 0xef86ee2d, 0xf9164009, 0x47d2a067, 0xd323c581, 0x12f44a4f, 0x497b9a3e,
     0x0a096840, 0x6c0c10f9, 0x4dfae827, 0xe63e5093, 0x57bd613c, 0x3db25abd, 0x45dad6fa, 0x74697393,
     0x1c355ae2, 0xe8658872, 0x238fabfd, 0xa07d1ff3, 0xd5fc06cd, 0x08cb5dff, 0xfab5d60d, 0x09c5ff33,
     0xa61b0ef4, 0x31c43c2b, 0x601bbbaa, 0xbbd43653, 0xecbf1a41, 0x42179ef6, 0x311cd88c, 0xf2ec3d26,
     0xb76cc23b, 0x9180e64c, 0xc9085778, 0x481d6cc9, 0xa4ec599a, 0x1422d685, 0x4b5ed978, 0xdc034f48,
     0xca9d43c0, 0xa19c6a98, 0x335f73b7, 0xf6870f58, 0xb1a7e39f, 0x2f0c0dc5, 0x7753992e, 0x1d90ef7a,
     0x37ebb68d, 0x1ea4f266, 0x8657245e, 0x3aa60733, 0x81632236, 0xc2f560ac, 0x986c094b, 0xc2d9d139,
     0x19b9ccac, 0xa3a73ddb, 0x8cecca9f, 0xf5299205, 0xc860cab9, 0xf90a9118, 0x5bfb69da, 0x131a0d38])
    (0x67452301, 0xefcdab89, 0x98badcfe, 0x10325476, 0xc3d2e1f0) [0..<80] =
    (0xc791427c, 0xf9599b02, 0xbd264967, 0x987c522c, 0x6a1b5c45)"
proof -
  define W :: "u32 list" where "W =
    [0x6ba7b810, 0x9dad11d1, 0x80b400c0, 0x4fd430c8, 0x7777772e, 0x6578616d, 0x706c652e, 0x636f6d80,
     0x00000000, 0x00000000, 0x00000000, 0x00000000, 0x00000000, 0x00000000, 0x00000000, 0x000000f8,
     0xd62771a1, 0xa4f24233, 0xef86ee2d, 0xf9164009, 0x47d2a067, 0xd323c581, 0x12f44a4f, 0x497b9a3e,
     0x0a096840, 0x6c0c10f9, 0x4dfae827, 0xe63e5093, 0x57bd613c, 0x3db25abd, 0x45dad6fa, 0x74697393,
     0x1c355ae2, 0xe8658872, 0x238fabfd, 0xa07d1ff3, 0xd5fc06cd, 0x08cb5dff, 0xfab5d60d, 0x09c5ff33,
     0xa61b0ef4, 0x31c43c2b, 0x601bbbaa, 0xbbd43653, 0xecbf1a41, 0x42179ef6, 0x311cd88c, 0xf2ec3d26,
     0xb76cc23b, 0x9180e64c, 0xc9085778, 0x481d6cc9, 0xa4ec599a, 0x1422d685, 0x4b5ed978, 0xdc034f48,
     0xca9d43c0, 0xa19c6a98, 0x335f73b7, 0xf6870f58, 0xb1a7e39f, 0x2f0c0dc5, 0x7753992e, 0x1d90ef7a,
     0x37ebb68d, 0x1ea4f266, 0x8657245e, 0x3aa60733, 0x81632236, 0xc2f560ac, 0x986c094b, 0xc2d9d139,
     0x19b9ccac, 0xa3a73ddb, 0x8cecca9f, 0xf5299205, 0xc860cab9, 0xf90a9118, 0x5bfb69da, 0x131a0d38]"
  have w:
    "W ! 0 = 0x6ba7b810"
    "W ! 1 = 0x9dad11d1"
    "W ! 2 = 0x80b400c0"
    "W ! 3 = 0x4fd430c8"
    "W ! 4 = 0x7777772e"
    "W ! 5 = 0x6578616d"
    "W ! 6 = 0x706c652e"
    "W ! 7 = 0x636f6d80"
    "W ! 8 = 0x00000000"
    "W ! 9 = 0x00000000"
    "W ! 10 = 0x00000000"
    "W ! 11 = 0x00000000"
    "W ! 12 = 0x00000000"
    "W ! 13 = 0x00000000"
    "W ! 14 = 0x00000000"
    "W ! 15 = 0x000000f8"
    "W ! 16 = 0xd62771a1"
    "W ! 17 = 0xa4f24233"
    "W ! 18 = 0xef86ee2d"
    "W ! 19 = 0xf9164009"
    "W ! 20 = 0x47d2a067"
    "W ! 21 = 0xd323c581"
    "W ! 22 = 0x12f44a4f"
    "W ! 23 = 0x497b9a3e"
    "W ! 24 = 0x0a096840"
    "W ! 25 = 0x6c0c10f9"
    "W ! 26 = 0x4dfae827"
    "W ! 27 = 0xe63e5093"
    "W ! 28 = 0x57bd613c"
    "W ! 29 = 0x3db25abd"
    "W ! 30 = 0x45dad6fa"
    "W ! 31 = 0x74697393"
    "W ! 32 = 0x1c355ae2"
    "W ! 33 = 0xe8658872"
    "W ! 34 = 0x238fabfd"
    "W ! 35 = 0xa07d1ff3"
    "W ! 36 = 0xd5fc06cd"
    "W ! 37 = 0x08cb5dff"
    "W ! 38 = 0xfab5d60d"
    "W ! 39 = 0x09c5ff33"
    "W ! 40 = 0xa61b0ef4"
    "W ! 41 = 0x31c43c2b"
    "W ! 42 = 0x601bbbaa"
    "W ! 43 = 0xbbd43653"
    "W ! 44 = 0xecbf1a41"
    "W ! 45 = 0x42179ef6"
    "W ! 46 = 0x311cd88c"
    "W ! 47 = 0xf2ec3d26"
    "W ! 48 = 0xb76cc23b"
    "W ! 49 = 0x9180e64c"
    "W ! 50 = 0xc9085778"
    "W ! 51 = 0x481d6cc9"
    "W ! 52 = 0xa4ec599a"
    "W ! 53 = 0x1422d685"
    "W ! 54 = 0x4b5ed978"
    "W ! 55 = 0xdc034f48"
    "W ! 56 = 0xca9d43c0"
    "W ! 57 = 0xa19c6a98"
    "W ! 58 = 0x335f73b7"
    "W ! 59 = 0xf6870f58"
    "W ! 60 = 0xb1a7e39f"
    "W ! 61 = 0x2f0c0dc5"
    "W ! 62 = 0x7753992e"
    "W ! 63 = 0x1d90ef7a"
    "W ! 64 = 0x37ebb68d"
    "W ! 65 = 0x1ea4f266"
    "W ! 66 = 0x8657245e"
    "W ! 67 = 0x3aa60733"
    "W ! 68 = 0x81632236"
    "W ! 69 = 0xc2f560ac"
    "W ! 70 = 0x986c094b"
    "W ! 71 = 0xc2d9d139"
    "W ! 72 = 0x19b9ccac"
    "W ! 73 = 0xa3a73ddb"
    "W ! 74 = 0x8cecca9f"
    "W ! 75 = 0xf5299205"
    "W ! 76 = 0xc860cab9"
    "W ! 77 = 0xf90a9118"
    "W ! 78 = 0x5bfb69da"
    "W ! 79 = 0x131a0d38"
    by (simp_all add: W_def)
  have w1: "W ! Suc 0 = 0x9dad11d1"
    by (simp add: W_def)
  have r:
    "sha1_round W (0x67452301, 0xefcdab89, 0x98badcfe, 0x10325476, 0xc3d2e1f0) 0 = (0x0b5c50c3, 0x67452301, 0x7bf36ae2, 0x98badcfe, 0x10325476)"
    "sha1_round W (0x0b5c50c3, 0x67452301, 0x7bf36ae2, 0x98badcfe, 0x10325476) (Suc 0) = (0x6fe7f73f, 0x0b5c50c3, 0x59d148c0, 0x7bf36ae2, 0x98badcfe)"
    "sha1_round W (0x6fe7f73f, 0x0b5c50c3, 0x59d148c0, 0x7bf36ae2, 0x98badcfe) 2 = (0xeae3aa24, 0x6fe7f73f, 0xc2d71430, 0x59d148c0, 0x7bf36ae2)"
    "sha1_round W (0xeae3aa24, 0x6fe7f73f, 0xc2d71430, 0x59d148c0, 0x7bf36ae2) 3 = (0xd59676d0, 0xeae3aa24, 0xdbf9fdcf, 0xc2d71430, 0x59d148c0)"
    "sha1_round W (0xd59676d0, 0xeae3aa24, 0xdbf9fdcf, 0xc2d71430, 0x59d148c0) 4 = (0xa98fcfb5, 0xd59676d0, 0x3ab8ea89, 0xdbf9fdcf, 0xc2d71430)"
    "sha1_round W (0xa98fcfb5, 0xd59676d0, 0x3ab8ea89, 0xdbf9fdcf, 0xc2d71430) 5 = (0xcfc5d17a, 0xa98fcfb5, 0x35659db4, 0x3ab8ea89, 0xdbf9fdcf)"
    "sha1_round W (0xcfc5d17a, 0xa98fcfb5, 0x35659db4, 0x3ab8ea89, 0xdbf9fdcf) 6 = (0xd2d8b9ab, 0xcfc5d17a, 0x6a63f3ed, 0x35659db4, 0x3ab8ea89)"
    "sha1_round W (0xd2d8b9ab, 0xcfc5d17a, 0x6a63f3ed, 0x35659db4, 0x3ab8ea89) 7 = (0xce23e508, 0xd2d8b9ab, 0xb3f1745e, 0x6a63f3ed, 0x35659db4)"
    "sha1_round W (0xce23e508, 0xd2d8b9ab, 0xb3f1745e, 0x6a63f3ed, 0x35659db4) 8 = (0x0f582ab4, 0xce23e508, 0xf4b62e6a, 0xb3f1745e, 0x6a63f3ed)"
    "sha1_round W (0x0f582ab4, 0xce23e508, 0xf4b62e6a, 0xb3f1745e, 0x6a63f3ed) 9 = (0xa5ddf865, 0x0f582ab4, 0x3388f942, 0xf4b62e6a, 0xb3f1745e)"
    "sha1_round W (0xa5ddf865, 0x0f582ab4, 0x3388f942, 0xf4b62e6a, 0xb3f1745e) 10 = (0xbde126f5, 0xa5ddf865, 0x03d60aad, 0x3388f942, 0xf4b62e6a)"
    "sha1_round W (0xbde126f5, 0xa5ddf865, 0x03d60aad, 0x3388f942, 0xf4b62e6a) 11 = (0x1f318fe1, 0xbde126f5, 0x69777e19, 0x03d60aad, 0x3388f942)"
    "sha1_round W (0x1f318fe1, 0xbde126f5, 0x69777e19, 0x03d60aad, 0x3388f942) 12 = (0x9fb49d17, 0x1f318fe1, 0x6f7849bd, 0x69777e19, 0x03d60aad)"
    "sha1_round W (0x9fb49d17, 0x1f318fe1, 0x6f7849bd, 0x69777e19, 0x03d60aad) 13 = (0xc462a0f2, 0x9fb49d17, 0x47cc63f8, 0x6f7849bd, 0x69777e19)"
    "sha1_round W (0xc462a0f2, 0x9fb49d17, 0x47cc63f8, 0x6f7849bd, 0x69777e19) 14 = (0xb81a57c2, 0xc462a0f2, 0xe7ed2745, 0x47cc63f8, 0x6f7849bd)"
    "sha1_round W (0xb81a57c2, 0xc462a0f2, 0xe7ed2745, 0x47cc63f8, 0x6f7849bd) 15 = (0x95321fed, 0xb81a57c2, 0xb118a83c, 0xe7ed2745, 0x47cc63f8)"
    "sha1_round W (0x95321fed, 0xb81a57c2, 0xb118a83c, 0xe7ed2745, 0x47cc63f8) 16 = (0x16b76ce9, 0x95321fed, 0xae0695f0, 0xb118a83c, 0xe7ed2745)"
    "sha1_round W (0x16b76ce9, 0x95321fed, 0xae0695f0, 0xb118a83c, 0xe7ed2745) 17 = (0x625a3623, 0x16b76ce9, 0x654c87fb, 0xae0695f0, 0xb118a83c)"
    "sha1_round W (0x625a3623, 0x16b76ce9, 0x654c87fb, 0xae0695f0, 0xb118a83c) 18 = (0xf26d6a67, 0x625a3623, 0x45addb3a, 0x654c87fb, 0xae0695f0)"
    "sha1_round W (0xf26d6a67, 0x625a3623, 0x45addb3a, 0x654c87fb, 0xae0695f0) 19 = (0x9459308a, 0xf26d6a67, 0xd8968d88, 0x45addb3a, 0x654c87fb)"
    "sha1_round W (0x9459308a, 0xf26d6a67, 0xd8968d88, 0x45addb3a, 0x654c87fb) 20 = (0x1675622a, 0x9459308a, 0xfc9b5a99, 0xd8968d88, 0x45addb3a)"
    "sha1_round W (0x1675622a, 0x9459308a, 0xfc9b5a99, 0xd8968d88, 0x45addb3a) 21 = (0x06acb939, 0x1675622a, 0xa5164c22, 0xfc9b5a99, 0xd8968d88)"
    "sha1_round W (0x06acb939, 0x1675622a, 0xa5164c22, 0xfc9b5a99, 0xd8968d88) 22 = (0x7ff45f29, 0x06acb939, 0x859d588a, 0xa5164c22, 0xfc9b5a99)"
    "sha1_round W (0x7ff45f29, 0x06acb939, 0x859d588a, 0xa5164c22, 0xfc9b5a99) 23 = (0xd9a47338, 0x7ff45f29, 0x41ab2e4e, 0x859d588a, 0xa5164c22)"
    "sha1_round W (0xd9a47338, 0x7ff45f29, 0x41ab2e4e, 0x859d588a, 0xa5164c22) 24 = (0x0e4a310b, 0xd9a47338, 0x5ffd17ca, 0x41ab2e4e, 0x859d588a)"
    "sha1_round W (0x0e4a310b, 0xd9a47338, 0x5ffd17ca, 0x41ab2e4e, 0x859d588a) 25 = (0xf1bbc141, 0x0e4a310b, 0x36691cce, 0x5ffd17ca, 0x41ab2e4e)"
    "sha1_round W (0xf1bbc141, 0x0e4a310b, 0x36691cce, 0x5ffd17ca, 0x41ab2e4e) 26 = (0x9dd66463, 0xf1bbc141, 0xc3928c42, 0x36691cce, 0x5ffd17ca)"
    "sha1_round W (0x9dd66463, 0xf1bbc141, 0xc3928c42, 0x36691cce, 0x5ffd17ca) 27 = (0x7422323e, 0x9dd66463, 0x7c6ef050, 0xc3928c42, 0x36691cce)"
    "sha1_round W (0x7422323e, 0x9dd66463, 0x7c6ef050, 0xc3928c42, 0x36691cce) 28 = (0xa370c9ea, 0x7422323e, 0xe7759918, 0x7c6ef050, 0xc3928c42)"
    "sha1_round W (0xa370c9ea, 0x7422323e, 0xe7759918, 0x7c6ef050, 0xc3928c42) 29 = (0xcd716b6a, 0xa370c9ea, 0x9d088c8f, 0xe7759918, 0x7c6ef050)"
    "sha1_round W (0xcd716b6a, 0xa370c9ea, 0x9d088c8f, 0xe7759918, 0x7c6ef050) 30 = (0xb85efcc1, 0xcd716b6a, 0xa8dc327a, 0x9d088c8f, 0xe7759918)"
    "sha1_round W (0xb85efcc1, 0xcd716b6a, 0xa8dc327a, 0x9d088c8f, 0xe7759918) 31 = (0xcf3e6622, 0xb85efcc1, 0xb35c5ada, 0xa8dc327a, 0x9d088c8f)"
    "sha1_round W (0xcf3e6622, 0xb85efcc1, 0xb35c5ada, 0xa8dc327a, 0x9d088c8f) 32 = (0xb3c32bcc, 0xcf3e6622, 0x6e17bf30, 0xb35c5ada, 0xa8dc327a)"
    "sha1_round W (0xb3c32bcc, 0xcf3e6622, 0x6e17bf30, 0xb35c5ada, 0xa8dc327a) 33 = (0x8af6a3eb, 0xb3c32bcc, 0xb3cf9988, 0x6e17bf30, 0xb35c5ada)"
    "sha1_round W (0x8af6a3eb, 0xb3c32bcc, 0xb3cf9988, 0x6e17bf30, 0xb35c5ada) 34 = (0x12b57d5d, 0x8af6a3eb, 0x2cf0caf3, 0xb3cf9988, 0x6e17bf30)"
    "sha1_round W (0x12b57d5d, 0x8af6a3eb, 0x2cf0caf3, 0xb3cf9988, 0x6e17bf30) 35 = (0xe9e866f6, 0x12b57d5d, 0xe2bda8fa, 0x2cf0caf3, 0xb3cf9988)"
    "sha1_round W (0xe9e866f6, 0x12b57d5d, 0xe2bda8fa, 0x2cf0caf3, 0xb3cf9988) 36 = (0x12aa8a27, 0xe9e866f6, 0x44ad5f57, 0xe2bda8fa, 0x2cf0caf3)"
    "sha1_round W (0x12aa8a27, 0xe9e866f6, 0x44ad5f57, 0xe2bda8fa, 0x2cf0caf3) 37 = (0x49dfead0, 0x12aa8a27, 0xba7a19bd, 0x44ad5f57, 0xe2bda8fa)"
    "sha1_round W (0x49dfead0, 0x12aa8a27, 0xba7a19bd, 0x44ad5f57, 0xe2bda8fa) 38 = (0x74c8917e, 0x49dfead0, 0xc4aaa289, 0xba7a19bd, 0x44ad5f57)"
    "sha1_round W (0x74c8917e, 0x49dfead0, 0xc4aaa289, 0xba7a19bd, 0x44ad5f57) 39 = (0x8d6ecbdd, 0x74c8917e, 0x1277fab4, 0xc4aaa289, 0xba7a19bd)"
    "sha1_round W (0x8d6ecbdd, 0x74c8917e, 0x1277fab4, 0xc4aaa289, 0xba7a19bd) 40 = (0xf27513fa, 0x8d6ecbdd, 0x9d32245f, 0x1277fab4, 0xc4aaa289)"
    "sha1_round W (0xf27513fa, 0x8d6ecbdd, 0x9d32245f, 0x1277fab4, 0xc4aaa289) 41 = (0x71a405cb, 0xf27513fa, 0x635bb2f7, 0x9d32245f, 0x1277fab4)"
    "sha1_round W (0x71a405cb, 0xf27513fa, 0x635bb2f7, 0x9d32245f, 0x1277fab4) 42 = (0x29a35fa7, 0x71a405cb, 0xbc9d44fe, 0x635bb2f7, 0x9d32245f)"
    "sha1_round W (0x29a35fa7, 0x71a405cb, 0xbc9d44fe, 0x635bb2f7, 0x9d32245f) 43 = (0x8e2b1172, 0x29a35fa7, 0xdc690172, 0xbc9d44fe, 0x635bb2f7)"
    "sha1_round W (0x8e2b1172, 0x29a35fa7, 0xdc690172, 0xbc9d44fe, 0x635bb2f7) 44 = (0x6141fe5b, 0x8e2b1172, 0xca68d7e9, 0xdc690172, 0xbc9d44fe)"
    "sha1_round W (0x6141fe5b, 0x8e2b1172, 0xca68d7e9, 0xdc690172, 0xbc9d44fe) 45 = (0x84797dae, 0x6141fe5b, 0xa38ac45c, 0xca68d7e9, 0xdc690172)"
    "sha1_round W (0x84797dae, 0x6141fe5b, 0xa38ac45c, 0xca68d7e9, 0xdc690172) 46 = (0x0f1a2303, 0x84797dae, 0xd8507f96, 0xa38ac45c, 0xca68d7e9)"
    "sha1_round W (0x0f1a2303, 0x84797dae, 0xd8507f96, 0xa38ac45c, 0xca68d7e9) 47 = (0xb00dafea, 0x0f1a2303, 0xa11e5f6b, 0xd8507f96, 0xa38ac45c)"
    "sha1_round W (0xb00dafea, 0x0f1a2303, 0xa11e5f6b, 0xd8507f96, 0xa38ac45c) 48 = (0x74e3bfcc, 0xb00dafea, 0xc3c688c0, 0xa11e5f6b, 0xd8507f96)"
    "sha1_round W (0x74e3bfcc, 0xb00dafea, 0xc3c688c0, 0xa11e5f6b, 0xd8507f96) 49 = (0x3673ac36, 0x74e3bfcc, 0xac036bfa, 0xc3c688c0, 0xa11e5f6b)"
    "sha1_round W (0x3673ac36, 0x74e3bfcc, 0xac036bfa, 0xc3c688c0, 0xa11e5f6b) 50 = (0xac7ba64d, 0x3673ac36, 0x1d38eff3, 0xac036bfa, 0xc3c688c0)"
    "sha1_round W (0xac7ba64d, 0x3673ac36, 0x1d38eff3, 0xac036bfa, 0xc3c688c0) 51 = (0x66a86c0c, 0xac7ba64d, 0x8d9ceb0d, 0x1d38eff3, 0xac036bfa)"
    "sha1_round W (0x66a86c0c, 0xac7ba64d, 0x8d9ceb0d, 0x1d38eff3, 0xac036bfa) 52 = (0x4251f349, 0x66a86c0c, 0x6b1ee993, 0x8d9ceb0d, 0x1d38eff3)"
    "sha1_round W (0x4251f349, 0x66a86c0c, 0x6b1ee993, 0x8d9ceb0d, 0x1d38eff3) 53 = (0x7a52d589, 0x4251f349, 0x19aa1b03, 0x6b1ee993, 0x8d9ceb0d)"
    "sha1_round W (0x7a52d589, 0x4251f349, 0x19aa1b03, 0x6b1ee993, 0x8d9ceb0d) 54 = (0xfd8d2d93, 0x7a52d589, 0x50947cd2, 0x19aa1b03, 0x6b1ee993)"
    "sha1_round W (0xfd8d2d93, 0x7a52d589, 0x50947cd2, 0x19aa1b03, 0x6b1ee993) 55 = (0xe07605b9, 0xfd8d2d93, 0x5e94b562, 0x50947cd2, 0x19aa1b03)"
    "sha1_round W (0xe07605b9, 0xfd8d2d93, 0x5e94b562, 0x50947cd2, 0x19aa1b03) 56 = (0xdeb810ad, 0xe07605b9, 0xff634b64, 0x5e94b562, 0x50947cd2)"
    "sha1_round W (0xdeb810ad, 0xe07605b9, 0xff634b64, 0x5e94b562, 0x50947cd2) 57 = (0x56c4bf61, 0xdeb810ad, 0x781d816e, 0xff634b64, 0x5e94b562)"
    "sha1_round W (0x56c4bf61, 0xdeb810ad, 0x781d816e, 0xff634b64, 0x5e94b562) 58 = (0xf7e0d38b, 0x56c4bf61, 0x77ae042b, 0x781d816e, 0xff634b64)"
    "sha1_round W (0xf7e0d38b, 0x56c4bf61, 0x77ae042b, 0x781d816e, 0xff634b64) 59 = (0xf7ad0e81, 0xf7e0d38b, 0x55b12fd8, 0x77ae042b, 0x781d816e)"
    "sha1_round W (0xf7ad0e81, 0xf7e0d38b, 0x55b12fd8, 0x77ae042b, 0x781d816e) 60 = (0xbfc9ef99, 0xf7ad0e81, 0xfdf834e2, 0x55b12fd8, 0x77ae042b)"
    "sha1_round W (0xbfc9ef99, 0xf7ad0e81, 0xfdf834e2, 0x55b12fd8, 0x77ae042b) 61 = (0xca3edcb8, 0xbfc9ef99, 0x7deb43a0, 0xfdf834e2, 0x55b12fd8)"
    "sha1_round W (0xca3edcb8, 0xbfc9ef99, 0x7deb43a0, 0xfdf834e2, 0x55b12fd8) 62 = (0x1f1dbad0, 0xca3edcb8, 0x6ff27be6, 0x7deb43a0, 0xfdf834e2)"
    "sha1_round W (0x1f1dbad0, 0xca3edcb8, 0x6ff27be6, 0x7deb43a0, 0xfdf834e2) 63 = (0xa1cb2533, 0x1f1dbad0, 0x328fb72e, 0x6ff27be6, 0x7deb43a0)"
    "sha1_round W (0xa1cb2533, 0x1f1dbad0, 0x328fb72e, 0x6ff27be6, 0x7deb43a0) 64 = (0xfbfed88f, 0xa1cb2533, 0x07c76eb4, 0x328fb72e, 0x6ff27be6)"
    "sha1_round W (0xfbfed88f, 0xa1cb2533, 0x07c76eb4, 0x328fb72e, 0x6ff27be6) 65 = (0x6d593eca, 0xfbfed88f, 0xe872c94c, 0x07c76eb4, 0x328fb72e)"
    "sha1_round W (0x6d593eca, 0xfbfed88f, 0xe872c94c, 0x07c76eb4, 0x328fb72e) 66 = (0x42bcf626, 0x6d593eca, 0xfeffb623, 0xe872c94c, 0x07c76eb4)"
    "sha1_round W (0x42bcf626, 0x6d593eca, 0xfeffb623, 0xe872c94c, 0x07c76eb4) 67 = (0xe0433e2a, 0x42bcf626, 0x9b564fb2, 0xfeffb623, 0xe872c94c)"
    "sha1_round W (0xe0433e2a, 0x42bcf626, 0x9b564fb2, 0xfeffb623, 0xe872c94c) 68 = (0x63b5826b, 0xe0433e2a, 0x90af3d89, 0x9b564fb2, 0xfeffb623)"
    "sha1_round W (0x63b5826b, 0xe0433e2a, 0x90af3d89, 0x9b564fb2, 0xfeffb623) 69 = (0xeec27222, 0x63b5826b, 0xb810cf8a, 0x90af3d89, 0x9b564fb2)"
    "sha1_round W (0xeec27222, 0x63b5826b, 0xb810cf8a, 0x90af3d89, 0x9b564fb2) 70 = (0x217dcf98, 0xeec27222, 0xd8ed609a, 0xb810cf8a, 0x90af3d89)"
    "sha1_round W (0x217dcf98, 0xeec27222, 0xd8ed609a, 0xb810cf8a, 0x90af3d89) 71 = (0xdbe5a0ce, 0x217dcf98, 0xbbb09c88, 0xd8ed609a, 0xb810cf8a)"
    "sha1_round W (0xdbe5a0ce, 0x217dcf98, 0xbbb09c88, 0xd8ed609a, 0xb810cf8a) 72 = (0x5b01ab71, 0xdbe5a0ce, 0x085f73e6, 0xbbb09c88, 0xd8ed609a)"
    "sha1_round W (0x5b01ab71, 0xdbe5a0ce, 0x085f73e6, 0xbbb09c88, 0xd8ed609a) 73 = (0x0f371e16, 0x5b01ab71, 0xb6f96833, 0x085f73e6, 0xbbb09c88)"
    "sha1_round W (0x0f371e16, 0x5b01ab71, 0xb6f96833, 0x085f73e6, 0xbbb09c88) 74 = (0xdf8b9c62, 0x0f371e16, 0x56c06adc, 0xb6f96833, 0x085f73e6)"
    "sha1_round W (0xdf8b9c62, 0x0f371e16, 0x56c06adc, 0xb6f96833, 0x085f73e6) 75 = (0xa86d7115, 0xdf8b9c62, 0x83cdc785, 0x56c06adc, 0xb6f96833)"
    "sha1_round W (0xa86d7115, 0xdf8b9c62, 0x83cdc785, 0x56c06adc, 0xb6f96833) 76 = (0x61f148b2, 0xa86d7115, 0xb7e2e718, 0x83cdc785, 0x56c06adc)"
    "sha1_round W (0x61f148b2, 0xa86d7115, 0xb7e2e718, 0x83cdc785, 0x56c06adc) 77 = (0xf499259e, 0x61f148b2, 0x6a1b5c45, 0xb7e2e718, 0x83cdc785)"
    "sha1_round W (0xf499259e, 0x61f148b2, 0x6a1b5c45, 0xb7e2e718, 0x83cdc785) 78 = (0xf9599b02, 0xf499259e, 0x987c522c, 0x6a1b5c45, 0xb7e2e718)"
    "sha1_round W (0xf9599b02, 0xf499259e, 0x987c522c, 0x6a1b5c45, 0xb7e2e718) 79 = (0xc791427c, 0xf9599b02, 0xbd264967, 0x987c522c, 0x6a1b5c45)"
    by (simp_all add: w w1 rotl32_def sha1_f_def sha1_k_def)
  have "foldl (sha1_round W) (0x67452301, 0xefcdab89, 0x98badcfe, 0x10325476, 0xc3d2e1f0) [0..<80] =
    (0xc791427c, 0xf9599b02, 0xbd264967, 0x987c522c, 0x6a1b5c45)"
    by (simp add: upt_0_numeral upt_1_numeral r del: sha1_round.simps)
  then show ?thesis
    by (simp only: W_def)
qed

lemma example_sha1_block:
  "sha1_block (0x67452301, 0xefcdab89, 0x98badcfe, 0x10325476, 0xc3d2e1f0)
    [0x6b, 0xa7, 0xb8, 0x10, 0x9d, 0xad, 0x11, 0xd1, 0x80, 0xb4, 0x00, 0xc0, 0x4f, 0xd4, 0x30, 0xc8,
     0x77, 0x77, 0x77, 0x2e, 0x65, 0x78, 0x61, 0x6d, 0x70, 0x6c, 0x65, 0x2e, 0x63, 0x6f, 0x6d, 0x80,
     0x00, 0x00, 0x00, 0x00, 0x00, 0x00, 0x00, 0x00, 0x00, 0x00, 0x00, 0x00, 0x00, 0x00, 0x00, 0x00,
     0x00, 0x00, 0x00, 0x00, 0x00, 0x00, 0x00, 0x00, 0x00, 0x00, 0x00, 0x00, 0x00, 0x00, 0x00, 0xf8] =
    (0x2ed6657d, 0xe927468b, 0x55e12665, 0xa8aea6a2, 0x2dee3e35)"
  by (simp only: sha1_block.simps example_be_words example_sha1_sched example_sha1_rounds) simp

lemma example_SHA1:
  "SHA1 ([0x6b, 0xa7, 0xb8, 0x10, 0x9d, 0xad, 0x11, 0xd1, 0x80, 0xb4, 0x00, 0xc0, 0x4f, 0xd4, 0x30, 0xc8] @ bytes_of ''www.example.com'') =
    [0x2e, 0xd6, 0x65, 0x7d, 0xe9, 0x27, 0x46, 0x8b, 0x55, 0xe1, 0x26, 0x65, 0xa8, 0xae, 0xa6, 0xa2,
     0x2d, 0xee, 0x3e, 0x35]"
proof -
  have "sha1_blocks (0x67452301, 0xefcdab89, 0x98badcfe, 0x10325476, 0xc3d2e1f0)
      [0x6b, 0xa7, 0xb8, 0x10, 0x9d, 0xad, 0x11, 0xd1, 0x80, 0xb4, 0x00, 0xc0, 0x4f, 0xd4, 0x30, 0xc8,
     0x77, 0x77, 0x77, 0x2e, 0x65, 0x78, 0x61, 0x6d, 0x70, 0x6c, 0x65, 0x2e, 0x63, 0x6f, 0x6d, 0x80,
     0x00, 0x00, 0x00, 0x00, 0x00, 0x00, 0x00, 0x00, 0x00, 0x00, 0x00, 0x00, 0x00, 0x00, 0x00, 0x00,
     0x00, 0x00, 0x00, 0x00, 0x00, 0x00, 0x00, 0x00, 0x00, 0x00, 0x00, 0x00, 0x00, 0x00, 0x00, 0xf8] =
      (0x2ed6657d, 0xe927468b, 0x55e12665, 0xa8aea6a2, 0x2dee3e35)"
    by (subst sha1_blocks.simps, subst sha1_blocks.simps)
      (simp add: example_sha1_block del: sha1_block.simps)
  then show ?thesis
    by (simp only: SHA1_def example_message example_sha1_pad) (simp add: be_bytes_def)
qed

lemma example_md5_pad:
  "md5_pad [0x6b, 0xa7, 0xb8, 0x10, 0x9d, 0xad, 0x11, 0xd1, 0x80, 0xb4, 0x00, 0xc0, 0x4f, 0xd4, 0x30, 0xc8,
     0x77, 0x77, 0x77, 0x2e, 0x65, 0x78, 0x61, 0x6d, 0x70, 0x6c, 0x65, 0x2e, 0x63, 0x6f, 0x6d] =
    [0x6b, 0xa7, 0xb8, 0x10, 0x9d, 0xad, 0x11, 0xd1, 0x80, 0xb4, 0x00, 0xc0, 0x4f, 0xd4, 0x30, 0xc8,
     0x77, 0x77, 0x77, 0x2e, 0x65, 0x78, 0x61, 0x6d, 0x70, 0x6c, 0x65, 0x2e, 0x63, 0x6f, 0x6d, 0x80,
     0x00, 0x00, 0x00, 0x00, 0x00, 0x00, 0x00, 0x00, 0x00, 0x00, 0x00, 0x00, 0x00, 0x00, 0x00, 0x00,
     0x00, 0x00, 0x00, 0x00, 0x00, 0x00, 0x00, 0x00, 0xf8, 0x00, 0x00, 0x00, 0x00, 0x00, 0x00, 0x00]"
  by (simp add: md5_pad_def pad_zeros_def bit_length_bytes_def replicate_numeral)

lemma example_le_words:
  "le_words [0x6b, 0xa7, 0xb8, 0x10, 0x9d, 0xad, 0x11, 0xd1, 0x80, 0xb4, 0x00, 0xc0, 0x4f, 0xd4, 0x30, 0xc8,
     0x77, 0x77, 0x77, 0x2e, 0x65, 0x78, 0x61, 0x6d, 0x70, 0x6c, 0x65, 0x2e, 0x63, 0x6f, 0x6d, 0x80,
     0x00, 0x00, 0x00, 0x00, 0x00, 0x00, 0x00, 0x00, 0x00, 0x00, 0x00, 0x00, 0x00, 0x00, 0x00, 0x00,
     0x00, 0x00, 0x00, 0x00, 0x00, 0x00, 0x00, 0x00, 0xf8, 0x00, 0x00, 0x00, 0x00, 0x00, 0x00, 0x00] =
    [0x10b8a76b, 0xd111ad9d, 0xc000b480, 0xc830d44f, 0x2e777777, 0x6d617865, 0x2e656c70, 0x806d6f63,
     0x00000000, 0x00000000, 0x00000000, 0x00000000, 0x00000000, 0x00000000, 0x000000f8, 0x00000000]"
  by (simp add: be32_def)

lemma example_md5_rounds:
  "foldl (md5_round
    [0x10b8a76b, 0xd111ad9d, 0xc000b480, 0xc830d44f, 0x2e777777, 0x6d617865, 0x2e656c70, 0x806d6f63,
     0x00000000, 0x00000000, 0x00000000, 0x00000000, 0x00000000, 0x00000000, 0x000000f8, 0x00000000])
    (0x67452301, 0xefcdab89, 0x98badcfe, 0x10325476) [0..<64] =
    (0x19d3d15c, 0x253841b1, 0xb174ca4a, 0x8ebdf80b)"
proof -
  define M :: "u32 list" where "M =
    [0x10b8a76b, 0xd111ad9d, 0xc000b480, 0xc830d44f, 0x2e777777, 0x6d617865, 0x2e656c70, 0x806d6f63,
     0x00000000, 0x00000000, 0x00000000, 0x00000000, 0x00000000, 0x00000000, 0x000000f8, 0x00000000]"
  have m:
    "M ! 0 = 0x10b8a76b"
    "M ! (Suc 0) = 0xd111ad9d"
    "M ! 2 = 0xc000b480"
    "M ! 3 = 0xc830d44f"
    "M ! 4 = 0x2e777777"
    "M ! 5 = 0x6d617865"
    "M ! 6 = 0x2e656c70"
    "M ! 7 = 0x806d6f63"
    "M ! 8 = 0x00000000"
    "M ! 9 = 0x00000000"
    "M ! 10 = 0x00000000"
    "M ! 11 = 0x00000000"
    "M ! 12 = 0x00000000"
    "M ! 13 = 0x00000000"
    "M ! 14 = 0x000000f8"
    "M ! 15 = 0x00000000"
    by (simp_all add: M_def)
  have r:
    "md5_round M (0x67452301, 0xefcdab89, 0x98badcfe, 0x10325476) 0 = (0x10325476, 0x01739cfd, 0xefcdab89, 0x98badcfe)"
    "md5_round M (0x10325476, 0x01739cfd, 0xefcdab89, 0x98badcfe) (Suc 0) = (0x98badcfe, 0x5992e33a, 0x01739cfd, 0xefcdab89)"
    "md5_round M (0x98badcfe, 0x5992e33a, 0x01739cfd, 0xefcdab89) 2 = (0xefcdab89, 0x6fb72bb1, 0x5992e33a, 0x01739cfd)"
    "md5_round M (0xefcdab89, 0x6fb72bb1, 0x5992e33a, 0x01739cfd) 3 = (0x01739cfd, 0x00680f72, 0x6fb72bb1, 0x5992e33a)"
    "md5_round M (0x01739cfd, 0x00680f72, 0x6fb72bb1, 0x5992e33a) 4 = (0x5992e33a, 0x8d6fbd31, 0x00680f72, 0x6fb72bb1)"
    "md5_round M (0x5992e33a, 0x8d6fbd31, 0x00680f72, 0x6fb72bb1) 5 = (0x6fb72bb1, 0xd0875448, 0x8d6fbd31, 0x00680f72)"
    "md5_round M (0x6fb72bb1, 0xd0875448, 0x8d6fbd31, 0x00680f72) 6 = (0x00680f72, 0xcb54e1bf, 0xd0875448, 0x8d6fbd31)"
    "md5_round M (0x00680f72, 0xcb54e1bf, 0xd0875448, 0x8d6fbd31) 7 = (0x8d6fbd31, 0xc2e5749a, 0xcb54e1bf, 0xd0875448)"
    "md5_round M (0x8d6fbd31, 0xc2e5749a, 0xcb54e1bf, 0xd0875448) 8 = (0xd0875448, 0x5e40e67e, 0xc2e5749a, 0xcb54e1bf)"
    "md5_round M (0xd0875448, 0x5e40e67e, 0xc2e5749a, 0xcb54e1bf) 9 = (0xcb54e1bf, 0x695a0870, 0x5e40e67e, 0xc2e5749a)"
    "md5_round M (0xcb54e1bf, 0x695a0870, 0x5e40e67e, 0xc2e5749a) 10 = (0xc2e5749a, 0xce2f34e3, 0x695a0870, 0x5e40e67e)"
    "md5_round M (0xc2e5749a, 0xce2f34e3, 0x695a0870, 0x5e40e67e) 11 = (0x5e40e67e, 0x83585826, 0xce2f34e3, 0x695a0870)"
    "md5_round M (0x5e40e67e, 0x83585826, 0xce2f34e3, 0x695a0870) 12 = (0x695a0870, 0x70dc617f, 0x83585826, 0xce2f34e3)"
    "md5_round M (0x695a0870, 0x70dc617f, 0x83585826, 0xce2f34e3) 13 = (0xce2f34e3, 0x4dc700d5, 0x70dc617f, 0x83585826)"
    "md5_round M (0xce2f34e3, 0x4dc700d5, 0x70dc617f, 0x83585826) 14 = (0x83585826, 0xf1876fde, 0x4dc700d5, 0x70dc617f)"
    "md5_round M (0x83585826, 0xf1876fde, 0x4dc700d5, 0x70dc617f) 15 = (0x70dc617f, 0x408b2ab6, 0xf1876fde, 0x4dc700d5)"
    "md5_round M (0x70dc617f, 0x408b2ab6, 0xf1876fde, 0x4dc700d5) 16 = (0x4dc700d5, 0x527fae3b, 0x408b2ab6, 0xf1876fde)"
    "md5_round M (0x4dc700d5, 0x527fae3b, 0x408b2ab6, 0xf1876fde) 17 = (0xf1876fde, 0x4b1d2d53, 0x527fae3b, 0x408b2ab6)"
    "md5_round M (0xf1876fde, 0x4b1d2d53, 0x527fae3b, 0x408b2ab6) 18 = (0x408b2ab6, 0x28afc7eb, 0x4b1d2d53, 0x527fae3b)"
    "md5_round M (0x408b2ab6, 0x28afc7eb, 0x4b1d2d53, 0x527fae3b) 19 = (0x527fae3b, 0x3c140a8d, 0x28afc7eb, 0x4b1d2d53)"
    "md5_round M (0x527fae3b, 0x3c140a8d, 0x28afc7eb, 0x4b1d2d53) 20 = (0x4b1d2d53, 0x14f43f64, 0x3c140a8d, 0x28afc7eb)"
    "md5_round M (0x4b1d2d53, 0x14f43f64, 0x3c140a8d, 0x28afc7eb) 21 = (0x28afc7eb, 0x3f965428, 0x14f43f64, 0x3c140a8d)"
    "md5_round M (0x28afc7eb, 0x3f965428, 0x14f43f64, 0x3c140a8d) 22 = (0x3c140a8d, 0xb88b63b9, 0x3f965428, 0x14f43f64)"
    "md5_round M (0x3c140a8d, 0xb88b63b9, 0x3f965428, 0x14f43f64) 23 = (0x14f43f64, 0xc7d441d7, 0xb88b63b9, 0x3f965428)"
    "md5_round M (0x14f43f64, 0xc7d441d7, 0xb88b63b9, 0x3f965428) 24 = (0x3f965428, 0x96425d4e, 0xc7d441d7, 0xb88b63b9)"
    "md5_round M (0x3f965428, 0x96425d4e, 0xc7d441d7, 0xb88b63b9) 25 = (0xb88b63b9, 0xdd7ee702, 0x96425d4e, 0xc7d441d7)"
    "md5_round M (0xb88b63b9, 0xdd7ee702, 0x96425d4e, 0xc7d441d7) 26 = (0xc7d441d7, 0xc62539bb, 0xdd7ee702, 0x96425d4e)"
    "md5_round M (0xc7d441d7, 0xc62539bb, 0xdd7ee702, 0x96425d4e) 27 = (0x96425d4e, 0xe313006c, 0xc62539bb, 0xdd7ee702)"
    "md5_round M (0x96425d4e, 0xe313006c, 0xc62539bb, 0xdd7ee702) 28 = (0xdd7ee702, 0x4a3ee1ec, 0xe313006c, 0xc62539bb)"
    "md5_round M (0xdd7ee702, 0x4a3ee1ec, 0xe313006c, 0xc62539bb) 29 = (0xc62539bb, 0x9501afe7, 0x4a3ee1ec, 0xe313006c)"
    "md5_round M (0xc62539bb, 0x9501afe7, 0x4a3ee1ec, 0xe313006c) 30 = (0xe313006c, 0x78787db2, 0x9501afe7, 0x4a3ee1ec)"
    "md5_round M (0xe313006c, 0x78787db2, 0x9501afe7, 0x4a3ee1ec) 31 = (0x4a3ee1ec, 0x420d551d, 0x78787db2, 0x9501afe7)"
    "md5_round M (0x4a3ee1ec, 0x420d551d, 0x78787db2, 0x9501afe7) 32 = (0x9501afe7, 0xb2ff02d3, 0x420d551d, 0x78787db2)"
    "md5_round M (0x9501afe7, 0xb2ff02d3, 0x420d551d, 0x78787db2) 33 = (0x78787db2, 0xa18627fa, 0xb2ff02d3, 0x420d551d)"
    "md5_round M (0x78787db2, 0xa18627fa, 0xb2ff02d3, 0x420d551d) 34 = (0x420d551d, 0xf08e5f84, 0xa18627fa, 0xb2ff02d3)"
    "md5_round M (0x420d551d, 0xf08e5f84, 0xa18627fa, 0xb2ff02d3) 35 = (0xb2ff02d3, 0x57a05488, 0xf08e5f84, 0xa18627fa)"
    "md5_round M (0xb2ff02d3, 0x57a05488, 0xf08e5f84, 0xa18627fa) 36 = (0xa18627fa, 0x4f1ccf2a, 0x57a05488, 0xf08e5f84)"
    "md5_round M (0xa18627fa, 0x4f1ccf2a, 0x57a05488, 0xf08e5f84) 37 = (0xf08e5f84, 0xc8b6cf4a, 0x4f1ccf2a, 0x57a05488)"
    "md5_round M (0xf08e5f84, 0xc8b6cf4a, 0x4f1ccf2a, 0x57a05488) 38 = (0x57a05488, 0x37e6070b, 0xc8b6cf4a, 0x4f1ccf2a)"
    "md5_round M (0x57a05488, 0x37e6070b, 0xc8b6cf4a, 0x4f1ccf2a) 39 = (0x4f1ccf2a, 0x69c95d17, 0x37e6070b, 0xc8b6cf4a)"
    "md5_round M (0x4f1ccf2a, 0x69c95d17, 0x37e6070b, 0xc8b6cf4a) 40 = (0xc8b6cf4a, 0x4ee79177, 0x69c95d17, 0x37e6070b)"
    "md5_round M (0xc8b6cf4a, 0x4ee79177, 0x69c95d17, 0x37e6070b) 41 = (0x37e6070b, 0x1a38681d, 0x4ee79177, 0x69c95d17)"
    "md5_round M (0x37e6070b, 0x1a38681d, 0x4ee79177, 0x69c95d17) 42 = (0x69c95d17, 0xca947a39, 0x1a38681d, 0x4ee79177)"
    "md5_round M (0x69c95d17, 0xca947a39, 0x1a38681d, 0x4ee79177) 43 = (0x4ee79177, 0xba31fb6d, 0xca947a39, 0x1a38681d)"
    "md5_round M (0x4ee79177, 0xba31fb6d, 0xca947a39, 0x1a38681d) 44 = (0x1a38681d, 0xefd6ab06, 0xba31fb6d, 0xca947a39)"
    "md5_round M (0x1a38681d, 0xefd6ab06, 0xba31fb6d, 0xca947a39) 45 = (0xca947a39, 0x2939500a, 0xefd6ab06, 0xba31fb6d)"
    "md5_round M (0xca947a39, 0x2939500a, 0xefd6ab06, 0xba31fb6d) 46 = (0xba31fb6d, 0x20cbb71e, 0x2939500a, 0xefd6ab06)"
    "md5_round M (0xba31fb6d, 0x20cbb71e, 0x2939500a, 0xefd6ab06) 47 = (0xefd6ab06, 0x52de38c7, 0x20cbb71e, 0x2939500a)"
    "md5_round M (0xefd6ab06, 0x52de38c7, 0x20cbb71e, 0x2939500a) 48 = (0x2939500a, 0x063da081, 0x52de38c7, 0x20cbb71e)"
    "md5_round M (0x2939500a, 0x063da081, 0x52de38c7, 0x20cbb71e) 49 = (0x20cbb71e, 0xdc7a4a6b, 0x063da081, 0x52de38c7)"
    "md5_round M (0x20cbb71e, 0xdc7a4a6b, 0x063da081, 0x52de38c7) 50 = (0x52de38c7, 0x02562e3e, 0xdc7a4a6b, 0x063da081)"
    "md5_round M (0x52de38c7, 0x02562e3e, 0xdc7a4a6b, 0x063da081) 51 = (0x063da081, 0xd1b2be2e, 0x02562e3e, 0xdc7a4a6b)"
    "md5_round M (0x063da081, 0xd1b2be2e, 0x02562e3e, 0xdc7a4a6b) 52 = (0xdc7a4a6b, 0x3055af45, 0xd1b2be2e, 0x02562e3e)"
    "md5_round M (0xdc7a4a6b, 0x3055af45, 0xd1b2be2e, 0x02562e3e) 53 = (0x02562e3e, 0x4d0a8cc5, 0x3055af45, 0xd1b2be2e)"
    "md5_round M (0x02562e3e, 0x4d0a8cc5, 0x3055af45, 0xd1b2be2e) 54 = (0xd1b2be2e, 0x8fb03d75, 0x4d0a8cc5, 0x3055af45)"
    "md5_round M (0xd1b2be2e, 0x8fb03d75, 0x4d0a8cc5, 0x3055af45) 55 = (0x3055af45, 0xea859cac, 0x8fb03d75, 0x4d0a8cc5)"
    "md5_round M (0x3055af45, 0xea859cac, 0x8fb03d75, 0x4d0a8cc5) 56 = (0x4d0a8cc5, 0x3b81b471, 0xea859cac, 0x8fb03d75)"
    "md5_round M (0x4d0a8cc5, 0x3b81b471, 0xea859cac, 0x8fb03d75) 57 = (0x8fb03d75, 0x42f9a7e3, 0x3b81b471, 0xea859cac)"
    "md5_round M (0x8fb03d75, 0x42f9a7e3, 0x3b81b471, 0xea859cac) 58 = (0xea859cac, 0xe3378eab, 0x42f9a7e3, 0x3b81b471)"
    "md5_round M (0xea859cac, 0xe3378eab, 0x42f9a7e3, 0x3b81b471) 59 = (0x3b81b471, 0xb673512d, 0xe3378eab, 0x42f9a7e3)"
    "md5_round M (0x3b81b471, 0xb673512d, 0xe3378eab, 0x42f9a7e3) 60 = (0x42f9a7e3, 0x19d3d15c, 0xb673512d, 0xe3378eab)"
    "md5_round M (0x42f9a7e3, 0x19d3d15c, 0xb673512d, 0xe3378eab) 61 = (0xe3378eab, 0x8ebdf80b, 0x19d3d15c, 0xb673512d)"
    "md5_round M (0xe3378eab, 0x8ebdf80b, 0x19d3d15c, 0xb673512d) 62 = (0xb673512d, 0xb174ca4a, 0x8ebdf80b, 0x19d3d15c)"
    "md5_round M (0xb673512d, 0xb174ca4a, 0x8ebdf80b, 0x19d3d15c) 63 = (0x19d3d15c, 0x253841b1, 0xb174ca4a, 0x8ebdf80b)"
    by (simp_all add: m rotl32_def md5_f_def md5_g_def md5_K_def md5_S_def)
  have "foldl (md5_round M) (0x67452301, 0xefcdab89, 0x98badcfe, 0x10325476) [0..<64] =
    (0x19d3d15c, 0x253841b1, 0xb174ca4a, 0x8ebdf80b)"
    by (simp add: upt_0_numeral upt_1_numeral r del: md5_round.simps)
  then show ?thesis
    by (simp only: M_def)
qed

lemma example_md5_block:
  "md5_block (0x67452301, 0xefcdab89, 0x98badcfe, 0x10325476)
    [0x6b, 0xa7, 0xb8, 0x10, 0x9d, 0xad, 0x11, 0xd1, 0x80, 0xb4, 0x00, 0xc0, 0x4f, 0xd4, 0x30, 0xc8,
     0x77, 0x77, 0x77, 0x2e, 0x65, 0x78, 0x61, 0x6d, 0x70, 0x6c, 0x65, 0x2e, 0x63, 0x6f, 0x6d, 0x80,
     0x00, 0x00, 0x00, 0x00, 0x00, 0x00, 0x00, 0x00, 0x00, 0x00, 0x00, 0x00, 0x00, 0x00, 0x00, 0x00,
     0x00, 0x00, 0x00, 0x00, 0x00, 0x00, 0x00, 0x00, 0xf8, 0x00, 0x00, 0x00, 0x00, 0x00, 0x00, 0x00] =
    (0x8118f45d, 0x1505ed3a, 0x4a2fa748, 0x9ef04c81)"
  by (simp only: md5_block.simps example_le_words example_md5_rounds) simp

lemma example_MD5:
  "MD5 ([0x6b, 0xa7, 0xb8, 0x10, 0x9d, 0xad, 0x11, 0xd1, 0x80, 0xb4, 0x00, 0xc0, 0x4f, 0xd4, 0x30, 0xc8] @ bytes_of ''www.example.com'') =
    [0x5d, 0xf4, 0x18, 0x81, 0x3a, 0xed, 0x05, 0x15, 0x48, 0xa7, 0x2f, 0x4a, 0x81, 0x4c, 0xf0, 0x9e]"
proof -
  have "md5_blocks (0x67452301, 0xefcdab89, 0x98badcfe, 0x10325476)
      [0x6b, 0xa7, 0xb8, 0x10, 0x9d, 0xad, 0x11, 0xd1, 0x80, 0xb4, 0x00, 0xc0, 0x4f, 0xd4, 0x30, 0xc8,
     0x77, 0x77, 0x77, 0x2e, 0x65, 0x78, 0x61, 0x6d, 0x70, 0x6c, 0x65, 0x2e, 0x63, 0x6f, 0x6d, 0x80,
     0x00, 0x00, 0x00, 0x00, 0x00, 0x00, 0x00, 0x00, 0x00, 0x00, 0x00, 0x00, 0x00, 0x00, 0x00, 0x00,
     0x00, 0x00, 0x00, 0x00, 0x00, 0x00, 0x00, 0x00, 0xf8, 0x00, 0x00, 0x00, 0x00, 0x00, 0x00, 0x00] =
      (0x8118f45d, 0x1505ed3a, 0x4a2fa748, 0x9ef04c81)"
    by (subst md5_blocks.simps, subst md5_blocks.simps)
      (simp add: example_md5_block del: md5_block.simps)
  then show ?thesis
    by (simp only: MD5_def example_message example_md5_pad) (simp add: le_bytes_def)
qed

section \<open>The generators at the concrete host state\<close>

lemma example_v1:
  "uuid_generate_v1 example_host example_draws =
     Inr [0xc2, 0x32, 0xab, 0x00, 0x94, 0x14, 0x11, 0xec, 0x92, 0x34, 0x01, 0x23, 0x45, 0x67, 0x89, 0xab]"
  by (simp add: create_v1 example_host_def uuid_s_ok_def uuid_create_def uuid_t_bytes_def be_bytes_def)

lemma example_v1mc:
  "uuid_generate_v1mc example_host example_draws =
     Inr [0xc2, 0x32, 0xab, 0x00, 0x94, 0x14, 0x11, 0xec, 0xbe, 0xef, 0x57, 0x78, 0x0b, 0xad, 0xf0, 0x0d]"
  by (simp add: create_v1mc example_host_def example_draws_def uuid_s_ok_def uuid_create_def
      uuid_t_bytes_def be_bytes_def v1mc_bytes_def)

lemma example_v1_strbuf:
  "internal_uuid_strbuf example_host example_draws 1 [] None 0 =
     Inr ''c232ab00-9414-11ec-9234-0123456789ab''"
proof -
  have "create_status example_host = uuid_s_ok" "to_string_status example_host = uuid_s_ok"
    by (simp_all add: example_host_def uuid_s_ok_def)
  then show ?thesis
    by (simp add: strbuf_v1 uuid_out_def hex2_def hex_digit_def example_host_def uuid_create_def
        uuid_t_bytes_def be_bytes_def)
qed

lemma example_v1mc_buf: "v1mc_buf example_draws = ''-beef-57780badf00d''"
  by (simp add: v1mc_buf_eq v1mc_bytes_def be_bytes_def hex2_def hex_digit_def example_draws_def)

lemma example_clock_seq_hi: "clock_seq_hi_and_reserved (fst (uuid_create example_host)) = 0x92"
  by (simp add: uuid_create_def example_host_def)

section \<open>The claims\<close>

text \<open>
  Claim C1. For a namespace of sixteen bytes and any name, \<open>uuid_generate_v3\<close> returns
  the first sixteen bytes of the MD5 digest of the namespace bytes followed by the name
  bytes, with byte 6 changed to \<open>(b AND 0x0f) OR 0x30\<close> and byte 8 to
  \<open>(b AND 0x3f) OR 0x80\<close>; \<open>uuid_generate_v5\<close> does the same with SHA-1 and
  \<open>0x50\<close>, and the last four of SHA-1's twenty bytes are dropped.
\<close>

theorem namespace_hash_uuid:
  assumes "length ns = 16"
  shows "uuid_generate_v3 h r ns name =
           Inr ((take 16 (MD5 (ns @ bytes_of name)))
                  [6 := (MD5 (ns @ bytes_of name) ! 6 AND 0x0f) OR 0x30,
                   8 := (MD5 (ns @ bytes_of name) ! 8 AND 0x3f) OR 0x80]) \<and>
         uuid_generate_v5 h r ns name =
           Inr ((take 16 (SHA1 (ns @ bytes_of name)))
                  [6 := (SHA1 (ns @ bytes_of name) ! 6 AND 0x0f) OR 0x50,
                   8 := (SHA1 (ns @ bytes_of name) ! 8 AND 0x3f) OR 0x80]) \<and>
         length (MD5 (ns @ bytes_of name)) = 16 \<and>
         length (SHA1 (ns @ bytes_of name)) = 20"
  using assms by (simp add: create_v3 create_v5 digest_bytes_def length_MD5 length_SHA1)

theorem namespace_hash_uuid_witness:
  "length [0x6b, 0xa7, 0xb8, 0x10, 0x9d, 0xad, 0x11, 0xd1,
           0x80, 0xb4, 0x00, 0xc0, 0x4f, 0xd4, 0x30, 0xc8 :: byte] = 16 \<and>
   uuid_generate_v3 example_host example_draws
       [0x6b, 0xa7, 0xb8, 0x10, 0x9d, 0xad, 0x11, 0xd1,
        0x80, 0xb4, 0x00, 0xc0, 0x4f, 0xd4, 0x30, 0xc8] ''www.example.com'' =
     Inr [0x5d, 0xf4, 0x18, 0x81, 0x3a, 0xed, 0x35, 0x15, 0x88, 0xa7, 0x2f, 0x4a, 0x81, 0x4c, 0xf0, 0x9e] \<and>
   uuid_generate_v5 example_host example_draws
       [0x6b, 0xa7, 0xb8, 0x10, 0x9d, 0xad, 0x11, 0xd1,
        0x80, 0xb4, 0x00, 0xc0, 0x4f, 0xd4, 0x30, 0xc8] ''www.example.com'' =
     Inr [0x2e, 0xd6, 0x65, 0x7d, 0xe9, 0x27, 0x56, 0x8b, 0x95, 0xe1, 0x26, 0x65, 0xa8, 0xae, 0xa6, 0xa2]"
proof -
  have len: "length [0x6b, 0xa7, 0xb8, 0x10, 0x9d, 0xad, 0x11, 0xd1,
           0x80, 0xb4, 0x00, 0xc0, 0x4f, 0xd4, 0x30, 0xc8 :: byte] = 16"
    by simp
  note t = namespace_hash_uuid [OF len, of example_host example_draws "''www.example.com''"]
  have v3: "uuid_generate_v3 example_host example_draws
       [0x6b, 0xa7, 0xb8, 0x10, 0x9d, 0xad, 0x11, 0xd1,
        0x80, 0xb4, 0x00, 0xc0, 0x4f, 0xd4, 0x30, 0xc8] ''www.example.com'' =
     Inr [0x5d, 0xf4, 0x18, 0x81, 0x3a, 0xed, 0x35, 0x15, 0x88, 0xa7, 0x2f, 0x4a, 0x81, 0x4c, 0xf0, 0x9e]"
    using t [THEN conjunct1] by (simp only: example_MD5) simp
  have v5: "uuid_generate_v5 example_host example_draws
       [0x6b, 0xa7, 0xb8, 0x10, 0x9d, 0xad, 0x11, 0xd1,
        0x80, 0xb4, 0x00, 0xc0, 0x4f, 0xd4, 0x30, 0xc8] ''www.example.com'' =
     Inr [0x2e, 0xd6, 0x65, 0x7d, 0xe9, 0x27, 0x56, 0x8b, 0x95, 0xe1, 0x26, 0x65, 0xa8, 0xae, 0xa6, 0xa2]"
    using t [THEN conjunct2, THEN conjunct1] by (simp only: example_SHA1) simp
  show ?thesis
    by (intro conjI) (rule len v3 v5)+
qed

text \<open>
  Claim C2. Whatever the draws, the digests and the host's values, every UUID a generator
  of version \<open>v\<close> returns has \<open>v\<close> in the high nibble of byte 6 and binary 10 in the
  top two bits of byte 8. Versions 3, 4 and 5 always return one. For
  \<open>uuid_generate_v1\<close> both fields are those \<open>uuid_create\<close> packed; for
  \<open>uuid_generate_v1mc\<close> the version nibble is \<open>uuid_create\<close>'s and the variant bits
  are forced by the generator itself.
\<close>

theorem version_variant_invariant:
  "(\<forall>u. uuid_generate_v1 h r = Inr u \<longrightarrow> version_nibble u = 1 \<and> variant_bits u = 2) \<and>
   (\<forall>u. uuid_generate_v1mc h r = Inr u \<longrightarrow> version_nibble u = 1 \<and> variant_bits u = 2) \<and>
   (\<exists>u. uuid_generate_v3 h r ns name = Inr u \<and> version_nibble u = 3 \<and> variant_bits u = 2) \<and>
   (\<exists>u. uuid_generate_v4 h r = Inr u \<and> version_nibble u = 4 \<and> variant_bits u = 2) \<and>
   (\<exists>u. uuid_generate_v5 h r ns name = Inr u \<and> version_nibble u = 5 \<and> variant_bits u = 2)"
proof -
  have v1: "version_nibble (uuid_t_bytes (fst (uuid_create h))) = 1 \<and>
      variant_bits (uuid_t_bytes (fst (uuid_create h))) = 2"
    by (simp add: version_nibble_def variant_bits_def uuid_t_bytes_def be_bytes_def uuid_create_def
        nibble_stamp_1 nibble_stamp_1' variant_stamp)
  have v1mc: "version_nibble (take 8 (uuid_t_bytes (fst (uuid_create h))) @ v1mc_bytes r) = 1 \<and>
      variant_bits (take 8 (uuid_t_bytes (fst (uuid_create h))) @ v1mc_bytes r) = 2"
    by (simp add: version_nibble_def variant_bits_def uuid_t_bytes_def be_bytes_def uuid_create_def
        v1mc_bytes_def nibble_stamp_1 nibble_stamp_1' variant_stamp)
  have v3: "version_nibble (digest_bytes 0x30 (MD5 m)) = 3 \<and>
      variant_bits (digest_bytes 0x30 (MD5 m)) = 2" for m
    by (simp add: version_nibble_def variant_bits_def digest_bytes_nth length_MD5
        nibble_stamp_3 variant_stamp)
  have v5: "version_nibble (digest_bytes 0x50 (SHA1 m)) = 5 \<and>
      variant_bits (digest_bytes 0x50 (SHA1 m)) = 2" for m
    by (simp add: version_nibble_def variant_bits_def digest_bytes_nth length_SHA1
        nibble_stamp_5 variant_stamp)
  have v4: "version_nibble (v4_bytes r) = 4 \<and> variant_bits (v4_bytes r) = 2"
    by (simp add: version_nibble_def variant_bits_def v4_bytes_def be_bytes_def
        nibble_stamp_4 variant_stamp)
  show ?thesis
    using v1 v1mc v3 v4 v5
    by (simp add: create_v1 create_v1mc create_v3 create_v4 create_v5 split: if_splits)
qed

theorem version_variant_invariant_witness:
  "uuid_generate_v1 example_host example_draws =
     Inr [0xc2, 0x32, 0xab, 0x00, 0x94, 0x14, 0x11, 0xec, 0x92, 0x34, 0x01, 0x23, 0x45, 0x67, 0x89, 0xab] \<and>
   version_nibble [0xc2, 0x32, 0xab, 0x00, 0x94, 0x14, 0x11, 0xec, 0x92, 0x34, 0x01, 0x23, 0x45, 0x67, 0x89, 0xab] = 1 \<and>
   variant_bits [0xc2, 0x32, 0xab, 0x00, 0x94, 0x14, 0x11, 0xec, 0x92, 0x34, 0x01, 0x23, 0x45, 0x67, 0x89, 0xab] = 2 \<and>
   uuid_generate_v1mc example_host example_draws =
     Inr [0xc2, 0x32, 0xab, 0x00, 0x94, 0x14, 0x11, 0xec, 0xbe, 0xef, 0x57, 0x78, 0x0b, 0xad, 0xf0, 0x0d] \<and>
   version_nibble [0xc2, 0x32, 0xab, 0x00, 0x94, 0x14, 0x11, 0xec, 0xbe, 0xef, 0x57, 0x78, 0x0b, 0xad, 0xf0, 0x0d] = 1 \<and>
   variant_bits [0xc2, 0x32, 0xab, 0x00, 0x94, 0x14, 0x11, 0xec, 0xbe, 0xef, 0x57, 0x78, 0x0b, 0xad, 0xf0, 0x0d] = 2"
proof -
  note t = version_variant_invariant [of example_host example_draws "[]" "[]"]
  note v1 = conjunct1 [OF t, rule_format, OF example_v1]
  note v1mc = conjunct1 [OF conjunct2 [OF t], rule_format, OF example_v1mc]
  show ?thesis
    by (intro conjI)
      (rule example_v1 example_v1mc v1 [THEN conjunct1] v1 [THEN conjunct2]
        v1mc [THEN conjunct1] v1mc [THEN conjunct2])+
qed

text \<open>
  Claim C3. \<open>uuid_generate_v5\<close> on the DNS namespace
  \<^verbatim>\<open>6ba7b810-9dad-11d1-80b4-00c04fd430c8\<close> (what \<open>uuid_ns_dns\<close> returns) and the name
  \<^verbatim>\<open>www.example.com\<close> returns the published version-5 UUID of that pair,
  \<^verbatim>\<open>2ed6657d-e927-568b-95e1-2665a8aea6a2\<close>.
\<close>

theorem v5_known_vector:
  "uuid_ns_dns h r = Inr [0x6b, 0xa7, 0xb8, 0x10, 0x9d, 0xad, 0x11, 0xd1,
                          0x80, 0xb4, 0x00, 0xc0, 0x4f, 0xd4, 0x30, 0xc8] \<and>
   uuid_generate_v5 h r [0x6b, 0xa7, 0xb8, 0x10, 0x9d, 0xad, 0x11, 0xd1,
                         0x80, 0xb4, 0x00, 0xc0, 0x4f, 0xd4, 0x30, 0xc8] ''www.example.com'' =
     Inr [0x2e, 0xd6, 0x65, 0x7d, 0xe9, 0x27, 0x56, 0x8b, 0x95, 0xe1, 0x26, 0x65, 0xa8, 0xae, 0xa6, 0xa2] \<and>
   uuid_in ''2ed6657d-e927-568b-95e1-2665a8aea6a2'' =
     Inr [0x2e, 0xd6, 0x65, 0x7d, 0xe9, 0x27, 0x56, 0x8b, 0x95, 0xe1, 0x26, 0x65, 0xa8, 0xae, 0xa6, 0xa2]"
proof -
  have dns: "uuid_ns_dns h r = Inr [0x6b, 0xa7, 0xb8, 0x10, 0x9d, 0xad, 0x11, 0xd1,
                          0x80, 0xb4, 0x00, 0xc0, 0x4f, 0xd4, 0x30, 0xc8]"
    by (simp add: uuid_ns_dns_def internal_uuid_create_def internal_uuid_strbuf_def c_str_def
        uuid_in_def string_to_uuid_loop.simps xdigit_val_def)
  have "uuid_generate_v5 h r [0x6b, 0xa7, 0xb8, 0x10, 0x9d, 0xad, 0x11, 0xd1,
                         0x80, 0xb4, 0x00, 0xc0, 0x4f, 0xd4, 0x30, 0xc8] ''www.example.com'' =
     Inr (digest_bytes 0x50 (SHA1 ([0x6b, 0xa7, 0xb8, 0x10, 0x9d, 0xad, 0x11, 0xd1,
                         0x80, 0xb4, 0x00, 0xc0, 0x4f, 0xd4, 0x30, 0xc8] @ bytes_of ''www.example.com'')))"
    by (simp add: create_v5)
  then have v5: "uuid_generate_v5 h r [0x6b, 0xa7, 0xb8, 0x10, 0x9d, 0xad, 0x11, 0xd1,
                         0x80, 0xb4, 0x00, 0xc0, 0x4f, 0xd4, 0x30, 0xc8] ''www.example.com'' =
     Inr [0x2e, 0xd6, 0x65, 0x7d, 0xe9, 0x27, 0x56, 0x8b, 0x95, 0xe1, 0x26, 0x65, 0xa8, 0xae, 0xa6, 0xa2]"
    by (simp only: example_SHA1) (simp add: digest_bytes_def)
  have ref: "uuid_in ''2ed6657d-e927-568b-95e1-2665a8aea6a2'' =
     Inr [0x2e, 0xd6, 0x65, 0x7d, 0xe9, 0x27, 0x56, 0x8b, 0x95, 0xe1, 0x26, 0x65, 0xa8, 0xae, 0xa6, 0xa2]"
    by (simp add: uuid_in_def string_to_uuid_loop.simps xdigit_val_def)
  show ?thesis
    using dns v5 ref by (intro conjI)
qed

text \<open>
  Claim C4. \<open>uuid_generate_v3\<close> and \<open>uuid_generate_v5\<close> depend on the namespace and
  the name only: with any other host state and any other random draws the same
  arguments give the same result.
\<close>

theorem v3_v5_deterministic:
  "uuid_generate_v3 h r ns name = uuid_generate_v3 h' r' ns name \<and>
   uuid_generate_v5 h r ns name = uuid_generate_v5 h' r' ns name"
  by (simp add: uuid_generate_v3_def uuid_generate_v5_def internal_uuid_create_def
      internal_uuid_strbuf_def)

text \<open>
  Claim C5. \<open>uuid_generate_v4\<close> takes no argument and always returns sixteen bytes
  that are bits of the six random draws, except that the high nibble of byte 6 is
  0100 and the top two bits of byte 8 are 10.
\<close>

theorem v4_random_bits:
  "uuid_generate_v4 h r =
     Inr [ucast (drop_bit 24 (r 0)), ucast (drop_bit 16 (r 0)), ucast (drop_bit 8 (r 0)), ucast (r 0),
          ucast (drop_bit 8 (r 1)), ucast (r 1),
          (ucast (drop_bit 8 (r 2)) AND 0x0f) OR 0x40, ucast (r 2),
          (ucast (drop_bit 8 (r 3)) AND 0x3f) OR 0x80, ucast (r 3),
          ucast (drop_bit 8 (r 4)), ucast (r 4),
          ucast (drop_bit 24 (r 5)), ucast (drop_bit 16 (r 5)), ucast (drop_bit 8 (r 5)), ucast (r 5)]"
  by (simp add: create_v4 v4_bytes_def be_bytes_def)

text \<open>
  Claim C6. The five constant producers never fail and return, whatever the host state
  and the random source, the all-zero UUID and the four namespace UUIDs
  \<^verbatim>\<open>6ba7b810\<close>, \<^verbatim>\<open>6ba7b811\<close>, \<^verbatim>\<open>6ba7b812\<close>, \<^verbatim>\<open>6ba7b814\<close>
  \<^verbatim>\<open>-9dad-11d1-80b4-00c04fd430c8\<close>.
\<close>

theorem constant_producers:
  "uuid_nil h r = Inr [0, 0, 0, 0, 0, 0, 0, 0, 0, 0, 0, 0, 0, 0, 0, 0] \<and>
   uuid_ns_dns h r = Inr [0x6b, 0xa7, 0xb8, 0x10, 0x9d, 0xad, 0x11, 0xd1,
                          0x80, 0xb4, 0x00, 0xc0, 0x4f, 0xd4, 0x30, 0xc8] \<and>
   uuid_ns_url h r = Inr [0x6b, 0xa7, 0xb8, 0x11, 0x9d, 0xad, 0x11, 0xd1,
                          0x80, 0xb4, 0x00, 0xc0, 0x4f, 0xd4, 0x30, 0xc8] \<and>
   uuid_ns_oid h r = Inr [0x6b, 0xa7, 0xb8, 0x12, 0x9d, 0xad, 0x11, 0xd1,
                          0x80, 0xb4, 0x00, 0xc0, 0x4f, 0xd4, 0x30, 0xc8] \<and>
   uuid_ns_x500 h r = Inr [0x6b, 0xa7, 0xb8, 0x14, 0x9d, 0xad, 0x11, 0xd1,
                           0x80, 0xb4, 0x00, 0xc0, 0x4f, 0xd4, 0x30, 0xc8]"
proof -
  have nil: "uuid_nil h r = Inr [0, 0, 0, 0, 0, 0, 0, 0, 0, 0, 0, 0, 0, 0, 0, 0]"
    by (simp add: uuid_nil_def internal_uuid_create_def internal_uuid_strbuf_def c_str_def
        uuid_in_def string_to_uuid_loop.simps xdigit_val_def)
  have dns: "uuid_ns_dns h r = Inr [0x6b, 0xa7, 0xb8, 0x10, 0x9d, 0xad, 0x11, 0xd1,
                          0x80, 0xb4, 0x00, 0xc0, 0x4f, 0xd4, 0x30, 0xc8]"
    by (simp add: uuid_ns_dns_def internal_uuid_create_def internal_uuid_strbuf_def c_str_def
        uuid_in_def string_to_uuid_loop.simps xdigit_val_def)
  have url: "uuid_ns_url h r = Inr [0x6b, 0xa7, 0xb8, 0x11, 0x9d, 0xad, 0x11, 0xd1,
                          0x80, 0xb4, 0x00, 0xc0, 0x4f, 0xd4, 0x30, 0xc8]"
    by (simp add: uuid_ns_url_def internal_uuid_create_def internal_uuid_strbuf_def c_str_def
        uuid_in_def string_to_uuid_loop.simps xdigit_val_def)
  have oid: "uuid_ns_oid h r = Inr [0x6b, 0xa7, 0xb8, 0x12, 0x9d, 0xad, 0x11, 0xd1,
                          0x80, 0xb4, 0x00, 0xc0, 0x4f, 0xd4, 0x30, 0xc8]"
    by (simp add: uuid_ns_oid_def internal_uuid_create_def internal_uuid_strbuf_def c_str_def
        uuid_in_def string_to_uuid_loop.simps xdigit_val_def)
  have x500: "uuid_ns_x500 h r = Inr [0x6b, 0xa7, 0xb8, 0x14, 0x9d, 0xad, 0x11, 0xd1,
                           0x80, 0xb4, 0x00, 0xc0, 0x4f, 0xd4, 0x30, 0xc8]"
    by (simp add: uuid_ns_x500_def internal_uuid_create_def internal_uuid_strbuf_def c_str_def
        uuid_in_def string_to_uuid_loop.simps xdigit_val_def)
  show ?thesis
    using nil dns url oid x500 by (intro conjI)
qed

text \<open>
  Claim C7. In every UUID \<open>uuid_generate_v1mc\<close> returns, the first octet of the node
  field (byte 10) has its multicast bit (bit 0) and its local-administration bit
  (bit 1) set.
\<close>

theorem v1mc_multicast_local_bits:
  assumes "uuid_generate_v1mc h r = Inr u"
  shows "bit (u ! 10) 0 \<and> bit (u ! 10) 1"
proof -
  have "u = take 8 (uuid_t_bytes (fst (uuid_create h))) @ v1mc_bytes r"
    using assms by (simp add: create_v1mc split: if_splits)
  then have "u ! 10 = ucast (drop_bit 8 (r 1)) OR 0x03"
    by (simp add: uuid_t_bytes_def be_bytes_def v1mc_bytes_def)
  then show ?thesis
    by (simp only: multicast_stamp)
qed

theorem v1mc_multicast_local_bits_witness:
  "uuid_generate_v1mc example_host example_draws =
     Inr [0xc2, 0x32, 0xab, 0x00, 0x94, 0x14, 0x11, 0xec, 0xbe, 0xef, 0x57, 0x78, 0x0b, 0xad, 0xf0, 0x0d] \<and>
   bit ([0xc2, 0x32, 0xab, 0x00, 0x94, 0x14, 0x11, 0xec, 0xbe, 0xef, 0x57, 0x78, 0x0b, 0xad, 0xf0, 0x0d :: byte] ! 10) 0 \<and>
   bit ([0xc2, 0x32, 0xab, 0x00, 0x94, 0x14, 0x11, 0xec, 0xbe, 0xef, 0x57, 0x78, 0x0b, 0xad, 0xf0, 0x0d :: byte] ! 10) 1"
proof -
  note t = v1mc_multicast_local_bits [OF example_v1mc]
  show ?thesis
    by (intro conjI) (rule example_v1mc t [THEN conjunct1] t [THEN conjunct2])+
qed

text \<open>
  Claim C8, as amended. \<open>uuid_generate_v1mc\<close> is \<open>uuid_generate_v1\<close> with the last 18
  of the 36 characters replaced by the 18 characters of \<open>v1mc_buf\<close>, which depend on
  the random draws only; the first 18 characters are those of the version-1 string.
  The last 18 characters of the version-1 string are a hyphen, both clock-sequence
  bytes (clock-seq-hi-and-reserved and clock-seq-low), a hyphen and the six node
  bytes: on the UUID, bytes 0 to 7 are kept and bytes 8 to 15 replaced. A failure of
  the provider is the same failure in both. The claim as written names only the
  clock-sequence-low byte and the node as what the 18 characters cover; the
  counterexample below shows clock-seq-hi-and-reserved replaced too.
\<close>

theorem v1mc_overwrites_last_18:
  "internal_uuid_strbuf h r 1 [] (Some (v1mc_buf r)) 18 =
     (case internal_uuid_strbuf h r 1 [] None 0 of
        Inl e \<Rightarrow> Inl e
      | Inr s \<Rightarrow> Inr (take 18 s @ v1mc_buf r)) \<and>
   length (v1mc_buf r) = 18 \<and>
   (\<forall>s. internal_uuid_strbuf h r 1 [] None 0 = Inr s \<longrightarrow>
      length s = 36 \<and>
      drop 18 s =
        ''-'' @ hex2 (clock_seq_hi_and_reserved (fst (uuid_create h))) @
        hex2 (clock_seq_low (fst (uuid_create h))) @ ''-'' @
        concat (map hex2 (node (fst (uuid_create h))))) \<and>
   (\<forall>u. uuid_generate_v1 h r = Inr u \<longrightarrow>
      length u = 16 \<and>
      u ! 8 = clock_seq_hi_and_reserved (fst (uuid_create h)) \<and>
      u ! 9 = clock_seq_low (fst (uuid_create h)) \<and>
      drop 10 u = node (fst (uuid_create h))) \<and>
   uuid_generate_v1mc h r =
     (case uuid_generate_v1 h r of
        Inl e \<Rightarrow> Inl e
      | Inr u \<Rightarrow>
          Inr (take 8 u @
               [(ucast (drop_bit 8 (r 0)) AND 0x3f) OR 0x80, ucast (r 0),
                ucast (drop_bit 8 (r 1)) OR 0x03, ucast (r 1),
                ucast (drop_bit 24 (r 2)), ucast (drop_bit 16 (r 2)),
                ucast (drop_bit 8 (r 2)), ucast (r 2)]))"
proof (cases "create_status h = uuid_s_ok \<and> to_string_status h = uuid_s_ok")
  case True
  then have ok: "create_status h = uuid_s_ok" "to_string_status h = uuid_s_ok"
    by simp_all
  have s1: "internal_uuid_strbuf h r 1 [] None 0 = Inr (uuid_out (uuid_t_bytes (fst (uuid_create h))))"
    using ok by (rule strbuf_v1)
  have smc: "internal_uuid_strbuf h r 1 [] (Some (v1mc_buf r)) 18 =
      Inr (take 18 (uuid_out (uuid_t_bytes (fst (uuid_create h)))) @ v1mc_buf r)"
    using ok
    by (simp add: internal_uuid_strbuf_def uuid_to_string_ok c_str_def length_uuid_t_out
      uuid_create_def strcpy_at_def)
  have u1: "uuid_generate_v1 h r = Inr (uuid_t_bytes (fst (uuid_create h)))"
    using ok by (simp add: create_v1)
  have umc: "uuid_generate_v1mc h r =
      Inr (take 8 (uuid_t_bytes (fst (uuid_create h))) @ v1mc_bytes r)"
    using ok by (simp add: create_v1mc)
  show ?thesis
    unfolding s1 smc u1 umc
    by (simp add: length_v1mc_buf length_uuid_t_out length_uuid_t_bytes v1_fields v1_last_18
        v1mc_bytes_def be_bytes_def)
next
  case False
  then show ?thesis
    by (auto simp: length_v1mc_buf create_v1 create_v1mc strbuf_v1_create_failure
        strbuf_v1_to_string_failure)
qed

theorem v1mc_overwrites_last_18_witness:
  "internal_uuid_strbuf example_host example_draws 1 [] None 0 =
     Inr ''c232ab00-9414-11ec-9234-0123456789ab'' \<and>
   length ''c232ab00-9414-11ec-9234-0123456789ab'' = 36 \<and>
   internal_uuid_strbuf example_host example_draws 1 [] (Some (v1mc_buf example_draws)) 18 =
     Inr ''c232ab00-9414-11ec-beef-57780badf00d'' \<and>
   uuid_generate_v1 example_host example_draws =
     Inr [0xc2, 0x32, 0xab, 0x00, 0x94, 0x14, 0x11, 0xec, 0x92, 0x34, 0x01, 0x23, 0x45, 0x67, 0x89, 0xab] \<and>
   [0xc2, 0x32, 0xab, 0x00, 0x94, 0x14, 0x11, 0xec, 0x92, 0x34, 0x01, 0x23, 0x45, 0x67, 0x89, 0xab :: byte] ! 8 =
     clock_seq_hi_and_reserved (fst (uuid_create example_host)) \<and>
   [0xc2, 0x32, 0xab, 0x00, 0x94, 0x14, 0x11, 0xec, 0x92, 0x34, 0x01, 0x23, 0x45, 0x67, 0x89, 0xab :: byte] ! 9 =
     clock_seq_low (fst (uuid_create example_host)) \<and>
   drop 10 [0xc2, 0x32, 0xab, 0x00, 0x94, 0x14, 0x11, 0xec, 0x92, 0x34, 0x01, 0x23, 0x45, 0x67, 0x89, 0xab :: byte] =
     node (fst (uuid_create example_host))"
proof -
  note t = v1mc_overwrites_last_18 [of example_host example_draws]
  note len = conjunct1 [OF conjunct1 [OF conjunct2 [OF conjunct2 [OF t]], rule_format,
      OF example_v1_strbuf]]
  note f = conjunct1 [OF conjunct2 [OF conjunct2 [OF conjunct2 [OF t]]], rule_format,
      OF example_v1]
  have "internal_uuid_strbuf example_host example_draws 1 [] (Some (v1mc_buf example_draws)) 18 =
      (case internal_uuid_strbuf example_host example_draws 1 [] None 0 of
        Inl e \<Rightarrow> Inl e
      | Inr s \<Rightarrow> Inr (take 18 s @ v1mc_buf example_draws))"
    by (rule conjunct1 [OF t])
  then have mc: "internal_uuid_strbuf example_host example_draws 1 [] (Some (v1mc_buf example_draws)) 18 =
     Inr ''c232ab00-9414-11ec-beef-57780badf00d''"
    by (simp add: example_v1_strbuf example_v1mc_buf)
  show ?thesis
    by (intro conjI)
      (rule example_v1_strbuf len mc example_v1 f [THEN conjunct2, THEN conjunct1]
        f [THEN conjunct2, THEN conjunct2, THEN conjunct1]
        f [THEN conjunct2, THEN conjunct2, THEN conjunct2])+
qed

theorem v1mc_keeps_clock_seq_hi_counterexample:
  "uuid_generate_v1 example_host example_draws =
     Inr [0xc2, 0x32, 0xab, 0x00, 0x94, 0x14, 0x11, 0xec, 0x92, 0x34, 0x01, 0x23, 0x45, 0x67, 0x89, 0xab] \<and>
   uuid_generate_v1mc example_host example_draws =
     Inr [0xc2, 0x32, 0xab, 0x00, 0x94, 0x14, 0x11, 0xec, 0xbe, 0xef, 0x57, 0x78, 0x0b, 0xad, 0xf0, 0x0d] \<and>
   clock_seq_hi_and_reserved (fst (uuid_create example_host)) = 0x92 \<and>
   [0xc2, 0x32, 0xab, 0x00, 0x94, 0x14, 0x11, 0xec, 0x92, 0x34, 0x01, 0x23, 0x45, 0x67, 0x89, 0xab :: byte] ! 8 = 0x92 \<and>
   [0xc2, 0x32, 0xab, 0x00, 0x94, 0x14, 0x11, 0xec, 0xbe, 0xef, 0x57, 0x78, 0x0b, 0xad, 0xf0, 0x0d :: byte] ! 8 = 0xbe \<and>
   [0xc2, 0x32, 0xab, 0x00, 0x94, 0x14, 0x11, 0xec, 0xbe, 0xef, 0x57, 0x78, 0x0b, 0xad, 0xf0, 0x0d :: byte] ! 8 \<noteq>
   [0xc2, 0x32, 0xab, 0x00, 0x94, 0x14, 0x11, 0xec, 0x92, 0x34, 0x01, 0x23, 0x45, 0x67, 0x89, 0xab :: byte] ! 8 \<and>
   drop 18 ''c232ab00-9414-11ec-9234-0123456789ab'' = ''-9234-0123456789ab'' \<and>
   drop 18 ''c232ab00-9414-11ec-beef-57780badf00d'' = ''-beef-57780badf00d''"
proof -
  have a: "[0xc2, 0x32, 0xab, 0x00, 0x94, 0x14, 0x11, 0xec, 0x92, 0x34, 0x01, 0x23, 0x45, 0x67, 0x89, 0xab :: byte] ! 8 = 0x92"
    by simp
  have b: "[0xc2, 0x32, 0xab, 0x00, 0x94, 0x14, 0x11, 0xec, 0xbe, 0xef, 0x57, 0x78, 0x0b, 0xad, 0xf0, 0x0d :: byte] ! 8 = 0xbe"
    by simp
  have c: "[0xc2, 0x32, 0xab, 0x00, 0x94, 0x14, 0x11, 0xec, 0xbe, 0xef, 0x57, 0x78, 0x0b, 0xad, 0xf0, 0x0d :: byte] ! 8 \<noteq>
   [0xc2, 0x32, 0xab, 0x00, 0x94, 0x14, 0x11, 0xec, 0x92, 0x34, 0x01, 0x23, 0x45, 0x67, 0x89, 0xab :: byte] ! 8"
    by simp
  have d: "drop 18 ''c232ab00-9414-11ec-9234-0123456789ab'' = ''-9234-0123456789ab''"
    by simp
  have e: "drop 18 ''c232ab00-9414-11ec-beef-57780badf00d'' = ''-beef-57780badf00d''"
    by simp
  show ?thesis
    by (intro conjI) (rule example_v1 example_v1mc example_clock_seq_hi a b c d e)+
qed

text \<open>
  Claim C9. When \<open>uuid_create\<close> reports a status other than \<open>uuid_s_ok\<close>, or
  \<open>uuid_to_string\<close> does after a successful \<open>uuid_create\<close>, both
  \<open>uuid_generate_v1\<close> and \<open>uuid_generate_v1mc\<close> fail with the error that carries that
  status (as the \<^verbatim>\<open>int\<close> the message prints); a UUID is returned only when both calls
  reported \<open>uuid_s_ok\<close>.
\<close>

theorem v1_provider_failure:
  "(create_status h \<noteq> uuid_s_ok \<longrightarrow>
      uuid_generate_v1 h r = Inl (External_Routine_Exception (sint (create_status h))) \<and>
      uuid_generate_v1mc h r = Inl (External_Routine_Exception (sint (create_status h)))) \<and>
   (create_status h = uuid_s_ok \<and> to_string_status h \<noteq> uuid_s_ok \<longrightarrow>
      uuid_generate_v1 h r = Inl (External_Routine_Exception (sint (to_string_status h))) \<and>
      uuid_generate_v1mc h r = Inl (External_Routine_Exception (sint (to_string_status h)))) \<and>
   (\<forall>u. uuid_generate_v1 h r = Inr u \<or> uuid_generate_v1mc h r = Inr u \<longrightarrow>
      create_status h = uuid_s_ok \<and> to_string_status h = uuid_s_ok)"
  by (auto simp: create_v1 create_v1mc split: if_splits)

theorem v1_provider_failure_witness:
  "create_status (example_host\<lparr>create_status := 5\<rparr>) \<noteq> uuid_s_ok \<and>
   uuid_generate_v1 (example_host\<lparr>create_status := 5\<rparr>) example_draws =
     Inl (External_Routine_Exception 5) \<and>
   uuid_generate_v1mc (example_host\<lparr>create_status := 5\<rparr>) example_draws =
     Inl (External_Routine_Exception 5) \<and>
   create_status (example_host\<lparr>to_string_status := 0xffffffff\<rparr>) = uuid_s_ok \<and>
   to_string_status (example_host\<lparr>to_string_status := 0xffffffff\<rparr>) \<noteq> uuid_s_ok \<and>
   uuid_generate_v1 (example_host\<lparr>to_string_status := 0xffffffff\<rparr>) example_draws =
     Inl (External_Routine_Exception (- 1)) \<and>
   uuid_generate_v1mc (example_host\<lparr>to_string_status := 0xffffffff\<rparr>) example_draws =
     Inl (External_Routine_Exception (- 1)) \<and>
   uuid_generate_v1 example_host example_draws =
     Inr [0xc2, 0x32, 0xab, 0x00, 0x94, 0x14, 0x11, 0xec, 0x92, 0x34, 0x01, 0x23, 0x45, 0x67, 0x89, 0xab] \<and>
   create_status example_host = uuid_s_ok \<and> to_string_status example_host = uuid_s_ok"
proof -
  have a: "create_status (example_host\<lparr>create_status := 5\<rparr>) \<noteq> uuid_s_ok"
    by (simp add: uuid_s_ok_def)
  have b: "create_status (example_host\<lparr>to_string_status := 0xffffffff\<rparr>) = uuid_s_ok \<and>
      to_string_status (example_host\<lparr>to_string_status := 0xffffffff\<rparr>) \<noteq> uuid_s_ok"
    by (simp add: uuid_s_ok_def example_host_def)
  note t1 = conjunct1 [OF v1_provider_failure [of "example_host\<lparr>create_status := 5\<rparr>" example_draws],
      rule_format, OF a]
  note t2 = conjunct1 [OF conjunct2
      [OF v1_provider_failure [of "example_host\<lparr>to_string_status := 0xffffffff\<rparr>" example_draws]],
      rule_format, OF b]
  note t3 = conjunct2 [OF conjunct2 [OF v1_provider_failure [of example_host example_draws]],
      rule_format, OF disjI1, OF example_v1]
  have c: "uuid_generate_v1 (example_host\<lparr>create_status := 5\<rparr>) example_draws =
     Inl (External_Routine_Exception 5) \<and>
   uuid_generate_v1mc (example_host\<lparr>create_status := 5\<rparr>) example_draws =
     Inl (External_Routine_Exception 5)"
    using t1 by simp
  have d: "uuid_generate_v1 (example_host\<lparr>to_string_status := 0xffffffff\<rparr>) example_draws =
     Inl (External_Routine_Exception (- 1)) \<and>
   uuid_generate_v1mc (example_host\<lparr>to_string_status := 0xffffffff\<rparr>) example_draws =
     Inl (External_Routine_Exception (- 1))"
    using t2 by simp
  show ?thesis
    by (intro conjI)
      (rule a b [THEN conjunct1] b [THEN conjunct2] c [THEN conjunct1] c [THEN conjunct2]
        d [THEN conjunct1] d [THEN conjunct2] example_v1 t3 [THEN conjunct1] t3 [THEN conjunct2])+
qed

text \<open>
  Claim C10. In every UUID \<open>uuid_generate_v1mc\<close> returns, both clock-sequence bytes
  (bytes 8 and 9) come from the first random draw, with the top two bits of byte 8
  forced to 10; the host's clock sequence has no influence on the result.
\<close>

theorem v1mc_clock_sequence:
  assumes "uuid_generate_v1mc h r = Inr u"
  shows "u ! 8 = (ucast (drop_bit 8 (r 0)) AND 0x3f) OR 0x80 \<and>
         u ! 9 = ucast (r 0) \<and>
         variant_bits u = 2 \<and>
         uuid_generate_v1mc (h\<lparr>host_clock_seq := cs\<rparr>) r = Inr u"
proof -
  have u: "u = take 8 (uuid_t_bytes (fst (uuid_create h))) @ v1mc_bytes r"
    and ok: "create_status h = uuid_s_ok" "to_string_status h = uuid_s_ok"
    using assms by (simp_all add: create_v1mc split: if_splits)
  have b: "u ! 8 = (ucast (drop_bit 8 (r 0)) AND 0x3f) OR 0x80" "u ! 9 = ucast (r 0)"
    by (simp_all add: u uuid_t_bytes_def be_bytes_def v1mc_bytes_def)
  have "take 8 (uuid_t_bytes (fst (uuid_create (h\<lparr>host_clock_seq := cs\<rparr>)))) =
      take 8 (uuid_t_bytes (fst (uuid_create h)))"
    by (simp add: uuid_t_bytes_def be_bytes_def uuid_create_def)
  then have "uuid_generate_v1mc (h\<lparr>host_clock_seq := cs\<rparr>) r = Inr u"
    using ok by (simp add: create_v1mc u)
  then show ?thesis
    using b by (simp add: variant_bits_def variant_stamp)
qed

theorem v1mc_clock_sequence_witness:
  "uuid_generate_v1mc example_host example_draws =
     Inr [0xc2, 0x32, 0xab, 0x00, 0x94, 0x14, 0x11, 0xec, 0xbe, 0xef, 0x57, 0x78, 0x0b, 0xad, 0xf0, 0x0d] \<and>
   uuid_generate_v1mc (example_host\<lparr>host_clock_seq := 0x3fff\<rparr>) example_draws =
     Inr [0xc2, 0x32, 0xab, 0x00, 0x94, 0x14, 0x11, 0xec, 0xbe, 0xef, 0x57, 0x78, 0x0b, 0xad, 0xf0, 0x0d] \<and>
   variant_bits [0xc2, 0x32, 0xab, 0x00, 0x94, 0x14, 0x11, 0xec, 0xbe, 0xef, 0x57, 0x78, 0x0b, 0xad, 0xf0, 0x0d] = 2"
proof -
  note t = v1mc_clock_sequence [OF example_v1mc, of "0x3fff"]
  show ?thesis
    by (intro conjI)
      (rule example_v1mc t [THEN conjunct2, THEN conjunct2, THEN conjunct2]
        t [THEN conjunct2, THEN conjunct2, THEN conjunct1])+
qed

end
